theory Spec2Isabelle
  imports Main
begin

section \<open>Task data model (store/taskStore)\<close>

text \<open>
  The \<open>Task\<close> interface of the task store. Only the fields that the modelled functions read
  are kept; \<open>id\<close> is called \<open>task_id\<close> because \<open>id\<close> is the identity function of HOL.
  \<open>status\<close> and \<open>priority\<close> are plain strings: the TypeScript union types are erased at run
  time, and a task that came over the wire holds whatever string the server sent. Date strings are kept as the instant they
  denote (milliseconds since the epoch), which is what \<open>new Date(s)\<close> compares.
\<close>

record Task =
  task_id :: string
  title :: string
  description :: "string option"
  status :: string
  priority :: string
  due_date :: "int option"
  completed_at :: "int option"

subsection \<open>Values at run time and property lookup\<close>

text \<open>
  The annotations say \<open>string\<close>, but what a lookup \<open>obj[key]\<close> on an object literal returns
  at run time is either a property of the literal itself or a member that the literal
  inherits from \<open>Object.prototype\<close>: a built-in function, or for \<open>__proto__\<close> the prototype
  object. \<open>Prim x\<close> is a primitive (a string or a number), \<open>Inherited m\<close> the built-in found
  under the name \<open>m\<close>. The inherited names are those of ECMAScript, Annex B included.
\<close>

datatype 'a JsValue = Prim 'a | Inherited string

definition object_prototype_members :: "string list" where
  "object_prototype_members =
     [''constructor'', ''__defineGetter__'', ''__defineSetter__'', ''hasOwnProperty'',
      ''__lookupGetter__'', ''__lookupSetter__'', ''isPrototypeOf'', ''propertyIsEnumerable'',
      ''toString'', ''valueOf'', ''__proto__'', ''toLocaleString'']"

text \<open>
  A value used as a property key is converted to a string: a string is its own key, a
  built-in function prints as its native source text (\<open>constructor\<close> is the function
  \<open>Object\<close>) and the prototype object as \<open>[object Object]\<close>.
\<close>

definition property_key :: "string JsValue \<Rightarrow> string" where
  "property_key v =
     (case v of
        Prim s \<Rightarrow> s
      | Inherited m \<Rightarrow>
          if m = ''__proto__'' then ''[object Object]''
          else ''function '' @ (if m = ''constructor'' then ''Object'' else m) @ ''() { [native code] }'')"

text \<open>\<open>obj[key]\<close>: the literal's own properties first, then \<open>Object.prototype\<close>; \<open>None\<close> is \<open>undefined\<close>.\<close>

definition get_property :: "(string \<times> 'a) list \<Rightarrow> string \<Rightarrow> 'a JsValue option" where
  "get_property obj k =
     (case map_of obj k of
        Some x \<Rightarrow> Some (Prim x)
      | None \<Rightarrow> if k \<in> set object_prototype_members then Some (Inherited k) else None)"

subsection \<open>Alias normalisation and the equivalence-class predicates\<close>

text \<open>
  \<open>mapping[status] || status\<close>: \<open>||\<close> falls through to the argument when the lookup gives
  \<open>undefined\<close> or an empty string; a built-in is truthy and is returned.
\<close>

definition status_mapping :: "(string \<times> string) list" where
  "status_mapping =
     [(''todo'', ''a_fazer''),
      (''pending'', ''a_fazer''),
      (''in_progress'', ''em_progresso''),
      (''done'', ''concluida''),
      (''cancelled'', ''cancelada'')]"

definition normalizeStatus :: "string JsValue \<Rightarrow> string JsValue" where
  "normalizeStatus s =
     (case get_property status_mapping (property_key s) of
        None \<Rightarrow> s
      | Some (Prim x) \<Rightarrow> if x = [] then s else Prim x
      | Some (Inherited m) \<Rightarrow> Inherited m)"

definition priority_mapping :: "(string \<times> string) list" where
  "priority_mapping =
     [(''low'', ''baixa''),
      (''medium'', ''media''),
      (''high'', ''alta''),
      (''urgent'', ''urgente'')]"

definition normalizePriority :: "string JsValue \<Rightarrow> string JsValue" where
  "normalizePriority p =
     (case get_property priority_mapping (property_key p) of
        None \<Rightarrow> p
      | Some (Prim x) \<Rightarrow> if x = [] then p else Prim x
      | Some (Inherited m) \<Rightarrow> Inherited m)"

text \<open>The predicates compare with \<open>===\<close>, which no built-in satisfies against a string literal.\<close>

definition isStatusDone :: "string JsValue \<Rightarrow> bool" where
  "isStatusDone s \<longleftrightarrow> s = Prim ''done'' \<or> s = Prim ''concluida''"

definition isStatusCancelled :: "string JsValue \<Rightarrow> bool" where
  "isStatusCancelled s \<longleftrightarrow> s = Prim ''cancelled'' \<or> s = Prim ''cancelada''"

definition isStatusInProgress :: "string JsValue \<Rightarrow> bool" where
  "isStatusInProgress s \<longleftrightarrow> s = Prim ''in_progress'' \<or> s = Prim ''em_progresso''"

definition isStatusTodo :: "string JsValue \<Rightarrow> bool" where
  "isStatusTodo s \<longleftrightarrow> s = Prim ''todo'' \<or> s = Prim ''a_fazer'' \<or> s = Prim ''pending''"

definition isPriorityHigh :: "string JsValue \<Rightarrow> bool" where
  "isPriorityHigh p \<longleftrightarrow> p = Prim ''high'' \<or> p = Prim ''alta''"

definition isPriorityUrgent :: "string JsValue \<Rightarrow> bool" where
  "isPriorityUrgent p \<longleftrightarrow> p = Prim ''urgent'' \<or> p = Prim ''urgente''"

definition isPriorityMedium :: "string JsValue \<Rightarrow> bool" where
  "isPriorityMedium p \<longleftrightarrow> p = Prim ''medium'' \<or> p = Prim ''media''"

definition isPriorityLow :: "string JsValue \<Rightarrow> bool" where
  "isPriorityLow p \<longleftrightarrow> p = Prim ''low'' \<or> p = Prim ''baixa''"

section \<open>Derived statistics\<close>

subsection \<open>components/ProgressStats\<close>

text \<open>
  The counters of the \<open>stats\<close> memo that compare a status or a priority. \<open>now\<close> is the
  instant \<open>new Date()\<close> returns. \<open>t.due_date && ...\<close> is false for a task without a due date.
\<close>

record ProgressStats =
  stats_total :: nat
  completed :: nat
  inProgress :: nat
  todo :: nat
  cancelled :: nat
  urgent :: nat
  high :: nat
  medium :: nat
  low :: nat
  overdue :: nat

definition open_with_priority :: "string \<Rightarrow> Task \<Rightarrow> bool" where
  "open_with_priority p t \<longleftrightarrow>
     priority t = p \<and> status t \<noteq> ''done'' \<and> status t \<noteq> ''cancelled''"

definition progress_stats :: "int \<Rightarrow> Task list \<Rightarrow> ProgressStats" where
  "progress_stats now ts =
     \<lparr> stats_total = length ts,
       completed = length (filter (\<lambda>t. status t = ''done'') ts),
       inProgress = length (filter (\<lambda>t. status t = ''in_progress'') ts),
       todo = length (filter (\<lambda>t. status t = ''todo'') ts),
       cancelled = length (filter (\<lambda>t. status t = ''cancelled'') ts),
       urgent = length (filter (open_with_priority ''urgent'') ts),
       high = length (filter (open_with_priority ''high'') ts),
       medium = length (filter (open_with_priority ''medium'') ts),
       low = length (filter (open_with_priority ''low'') ts),
       overdue = length (filter (\<lambda>t.
         (case due_date t of None \<Rightarrow> False | Some d \<Rightarrow> d < now) \<and>
         status t \<noteq> ''done'' \<and> status t \<noteq> ''cancelled'') ts) \<rparr>"

subsection \<open>The task list view: sort key and header counters\<close>

text \<open>
  \<open>map[priority] || 0\<close> over the object literal \<open>{urgent: 4, high: 3, medium: 2, low: 1}\<close>,
  called with the priority string of a task.
\<close>

definition priorityValue :: "string \<Rightarrow> nat JsValue" where
  "priorityValue p =
     (case get_property [(''urgent'', 4), (''high'', 3), (''medium'', 2), (''low'', 1)] p of
        None \<Rightarrow> Prim 0
      | Some (Prim n) \<Rightarrow> if n = 0 then Prim 0 else Prim n
      | Some (Inherited m) \<Rightarrow> Inherited m)"

definition highPriorityCount :: "Task list \<Rightarrow> nat" where
  "highPriorityCount ts =
     length (filter (\<lambda>t. (isPriorityHigh (Prim (priority t)) \<or> isPriorityUrgent (Prim (priority t))) \<and>
                          \<not> isStatusDone (Prim (status t)) \<and>
                          \<not> isStatusCancelled (Prim (status t))) ts)"

section \<open>The task store (store/taskStore)\<close>

text \<open>
  A rejected promise is \<open>Inl\<close> of the error object, of which the code reads
  \<open>error.response?.status\<close>, \<open>error.response?.data?.detail\<close> and \<open>error.message\<close>.
\<close>

record ApiError =
  err_status :: "nat option"
  detail :: "string option"
  message :: string

text \<open>\<open>error.response?.data?.detail || fallback\<close>: an absent or empty detail gives the fallback.\<close>

definition detail_or :: "ApiError \<Rightarrow> string \<Rightarrow> string" where
  "detail_or e fallback =
     (case detail e of
        None \<Rightarrow> fallback
      | Some d \<Rightarrow> if d = [] then fallback else d)"

record TaskState =
  tasks :: "Task list"
  total :: nat
  isLoading :: bool
  error :: "string option"

record FetchOptions =
  opt_status :: "string option"
  opt_limit :: "nat option"
  opt_offset :: "nat option"

text \<open>
  Each action takes the API call as a function whose result is the settled promise, and
  returns the store after the action together with what the action's own promise settles to.
\<close>

definition fetchTasks ::
  "(FetchOptions \<Rightarrow> ApiError + Task list \<times> nat) \<Rightarrow> FetchOptions \<Rightarrow> TaskState \<Rightarrow> TaskState \<times> (ApiError + unit)"
where
  "fetchTasks getTasks options s =
     (let s1 = s\<lparr>isLoading := True, error := None\<rparr>;
          lim = (case opt_limit options of None \<Rightarrow> 100 | Some n \<Rightarrow> if n = 0 then 100 else n)
      in case getTasks (options\<lparr>opt_limit := Some lim\<rparr>) of
           Inr (ts, n) \<Rightarrow> (s1\<lparr>tasks := ts, total := n, isLoading := False\<rparr>, Inr ())
         | Inl e \<Rightarrow>
             (s1\<lparr>error := Some (detail_or e ''Failed to fetch tasks''), isLoading := False\<rparr>, Inr ()))"

definition createTask ::
  "(string \<Rightarrow> string option \<Rightarrow> ApiError + Task) \<Rightarrow> string \<Rightarrow> string option \<Rightarrow> TaskState \<Rightarrow> TaskState \<times> (ApiError + Task)"
where
  "createTask createTaskNaturalLanguage input projectId s =
     (let s1 = s\<lparr>isLoading := True, error := None\<rparr>
      in case createTaskNaturalLanguage input projectId of
           Inr task \<Rightarrow> (s1\<lparr>tasks := tasks s1 @ [task], isLoading := False\<rparr>, Inr task)
         | Inl e \<Rightarrow>
             (s1\<lparr>error := Some (detail_or e ''Failed to create task''), isLoading := False\<rparr>, Inl e))"

definition createTaskStructured ::
  "('d \<Rightarrow> ApiError + Task) \<Rightarrow> 'd \<Rightarrow> TaskState \<Rightarrow> TaskState \<times> (ApiError + Task)"
where
  "createTaskStructured api_createTaskStructured taskData s =
     (let s1 = s\<lparr>isLoading := True, error := None\<rparr>
      in case api_createTaskStructured taskData of
           Inr task \<Rightarrow> (s1\<lparr>tasks := tasks s1 @ [task], isLoading := False\<rparr>, Inr task)
         | Inl e \<Rightarrow>
             (s1\<lparr>error := Some (detail_or e ''Failed to create task''), isLoading := False\<rparr>, Inl e))"

definition updateTask ::
  "(string \<Rightarrow> 'u \<Rightarrow> ApiError + Task) \<Rightarrow> string \<Rightarrow> 'u \<Rightarrow> TaskState \<Rightarrow> TaskState \<times> (ApiError + unit)"
where
  "updateTask api_updateTask taskId updates s =
     (let s1 = s\<lparr>isLoading := True, error := None\<rparr>
      in case api_updateTask taskId updates of
           Inr updatedTask \<Rightarrow>
             (s1\<lparr>tasks := map (\<lambda>task. if task_id task = taskId then updatedTask else task) (tasks s1),
                 isLoading := False\<rparr>, Inr ())
         | Inl e \<Rightarrow>
             (s1\<lparr>error := Some (detail_or e ''Failed to update task''), isLoading := False\<rparr>, Inl e))"

definition deleteTask ::
  "(string \<Rightarrow> ApiError + unit) \<Rightarrow> string \<Rightarrow> TaskState \<Rightarrow> TaskState \<times> (ApiError + unit)"
where
  "deleteTask api_deleteTask taskId s =
     (let s1 = s\<lparr>isLoading := True, error := None\<rparr>
      in case api_deleteTask taskId of
           Inr _ \<Rightarrow>
             (s1\<lparr>tasks := filter (\<lambda>task. task_id task \<noteq> taskId) (tasks s1), isLoading := False\<rparr>, Inr ())
         | Inl e \<Rightarrow>
             (s1\<lparr>error := Some (detail_or e ''Failed to delete task''), isLoading := False\<rparr>, Inl e))"

subsection \<open>The push-event handlers registered by \<open>setupWebSocket\<close>\<close>


definition on_task_updated :: "Task \<Rightarrow> TaskState \<Rightarrow> TaskState" where
  "on_task_updated task s =
     s\<lparr>tasks := map (\<lambda>t. if task_id t = task_id task then task else t) (tasks s)\<rparr>"



section \<open>The HTTP clients\<close>

subsection \<open>services/api: \<open>ApiService\<close> and its interceptors\<close>

text \<open>
  The browser state the interceptors touch: the two tokens in \<open>localStorage\<close> and
  \<open>window.location.href\<close>. \<open>sent\<close> logs every request configuration put on the wire by
  the axios instance, \<open>refresh_calls\<close> every call of the refresh endpoint. The backend is
  a parameter: \<open>server n config\<close> settles the request that is the \<open>n\<close>-th one sent, and
  \<open>refresh token\<close> settles \<open>POST /api/auth/refresh\<close>.
\<close>

record LocalStorage =
  access_token :: "string option"
  refresh_token :: "string option"

record Request =
  url :: string
  authorization :: "string option"
  retry :: bool

record Browser =
  localStorage :: LocalStorage
  location_href :: string
  sent :: "Request list"
  refresh_calls :: "string list"

definition request_interceptor :: "Browser \<Rightarrow> Request \<Rightarrow> Request" where
  "request_interceptor b config =
     (case access_token (localStorage b) of
        None \<Rightarrow> config
      | Some token \<Rightarrow>
          if token = [] then config
          else config\<lparr>authorization := Some (''Bearer '' @ token)\<rparr>)"

definition is_401 :: "ApiError \<Rightarrow> bool" where
  "is_401 e \<longleftrightarrow> err_status e = Some 401"

text \<open>
  \<open>this.api(request)\<close>: the request interceptor, the exchange with the server, and on a
  rejection the response interceptor, which calls \<open>this.api\<close> again for the retry. The
  retried promise is returned without \<open>await\<close>, so its rejection is not caught by the
  \<open>catch\<close> around the refresh.
\<close>

function api_request ::
  "(nat \<Rightarrow> Request \<Rightarrow> ApiError + string) \<Rightarrow> (string \<Rightarrow> ApiError + string \<times> string) \<Rightarrow>
   Browser \<Rightarrow> Request \<Rightarrow> Browser \<times> (ApiError + string)"
where
  "api_request server refresh b req =
     (let config = request_interceptor b req;
          b1 = b\<lparr>sent := sent b @ [config]\<rparr>
      in case server (length (sent b)) config of
           Inr response \<Rightarrow> (b1, Inr response)
         | Inl err \<Rightarrow>
             if is_401 err \<and> \<not> retry config then
               (case refresh_token (localStorage b1) of
                  None \<Rightarrow> (b1, Inl err)
                | Some refreshToken \<Rightarrow>
                    if refreshToken = [] then (b1, Inl err)
                    else
                      (case refresh refreshToken of
                         Inl refreshError \<Rightarrow>
                           (b1\<lparr>refresh_calls := refresh_calls b1 @ [refreshToken],
                               localStorage := \<lparr>access_token = None, refresh_token = None\<rparr>,
                               location_href := ''/login''\<rparr>,
                            Inl refreshError)
                       | Inr (new_access, new_refresh) \<Rightarrow>
                           api_request server refresh
                             (b1\<lparr>refresh_calls := refresh_calls b1 @ [refreshToken],
                                 localStorage := \<lparr>access_token = Some new_access,
                                                  refresh_token = Some new_refresh\<rparr>\<rparr>)
                             (config\<lparr>retry := True,
                                     authorization := Some (''Bearer '' @ new_access)\<rparr>)))
             else (b1, Inl err))"
  by pat_completeness auto
termination
  apply (relation "measure (\<lambda>(server, refresh, b, req). if retry req then 0 else 1)")
  apply (auto simp: request_interceptor_def split: option.splits if_splits)
  done

subsection \<open>services/aiApi: \<open>apiClient\<close>\<close>

text \<open>This axios instance installs the request interceptor only.\<close>

definition apiClient_request ::
  "(nat \<Rightarrow> Request \<Rightarrow> ApiError + string) \<Rightarrow> Browser \<Rightarrow> Request \<Rightarrow> Browser \<times> (ApiError + string)"
where
  "apiClient_request server b req =
     (let config = request_interceptor b req
      in (b\<lparr>sent := sent b @ [config]\<rparr>, server (length (sent b)) config))"

section \<open>components/ChatAssistant: \<open>executeAction\<close>\<close>

text \<open>
  Strings hold the UTF-8 bytes of the source literals. The world outside the component is
  the task table behind \<open>POST /ai/chat/action\<close> and the events dispatched on \<open>window\<close>;
  \<open>executeChatAction request db\<close> settles the call and gives the table after it.
\<close>

record ActionButton =
  label :: string
  action :: string
  data :: "(string \<times> string) list option"

record ChatActionRequest =
  req_action :: string
  req_task_id :: "string option"
  req_task_data :: "(string \<times> string) list option"

record ChatActionResponse =
  success :: bool
  resp_message :: string

datatype Role = User | Assistant

record Message =
  role :: Role
  content :: string
  timestamp :: int

record ChatAssistant =
  messages :: "Message list"
  loading :: bool

record World =
  server_tasks :: "Task list"
  window_events :: "string list"

definition cancelled_text :: string where
  "cancelled_text =
     [CHR 0xE2, CHR 0x9D, CHR 0x8C] @ '' A'' @ [CHR 0xC3, CHR 0xA7, CHR 0xC3, CHR 0xA3] @ ''o cancelada.''"

definition action_error_prefix :: string where
  "action_error_prefix =
     [CHR 0xE2, CHR 0x9D, CHR 0x8C] @ '' Erro ao executar a'' @
     [CHR 0xC3, CHR 0xA7, CHR 0xC3, CHR 0xA3] @ ''o: ''"

definition assistant_says :: "int \<Rightarrow> string \<Rightarrow> ChatAssistant \<Rightarrow> ChatAssistant" where
  "assistant_says now text c =
     c\<lparr>messages := messages c @ [\<lparr>role = Assistant, content = text, timestamp = now\<rparr>]\<rparr>"

definition executeAction ::
  "(ChatActionRequest \<Rightarrow> Task list \<Rightarrow> (ApiError + ChatActionResponse) \<times> Task list) \<Rightarrow>
   int \<Rightarrow> ActionButton \<Rightarrow> ChatAssistant \<times> World \<Rightarrow> ChatAssistant \<times> World"
where
  "executeAction executeChatAction now actionButton cw =
     (let c = fst cw; w = snd cw in
      if action actionButton = ''cancel'' then (assistant_says now cancelled_text c, w)
      else
        let c1 = c\<lparr>loading := True\<rparr>;
            request = \<lparr>req_action = action actionButton,
                       req_task_id = (case data actionButton of None \<Rightarrow> None
                                      | Some d \<Rightarrow> map_of d ''task_id''),
                       req_task_data = data actionButton\<rparr>
        in case executeChatAction request (server_tasks w) of
             (Inr response, db) \<Rightarrow>
               ((assistant_says now (resp_message response) c1)\<lparr>loading := False\<rparr>,
                w\<lparr>server_tasks := db, window_events := window_events w @ [''tasksUpdated'']\<rparr>)
           | (Inl e, db) \<Rightarrow>
               ((assistant_says now (action_error_prefix @ detail_or e (message e)) c1)
                  \<lparr>loading := False\<rparr>,
                w\<lparr>server_tasks := db\<rparr>))"

section \<open>components/SubtaskSuggestionsModal\<close>

record SubtaskSuggestion =
  sub_title :: string
  sub_description :: string
  estimated_duration :: nat

text \<open>
  The component state; \<open>selectedSubtasks\<close> is the \<open>Set\<close> of indices in insertion order,
  and \<open>callbacks\<close> logs the calls of the \<open>onClose\<close> and \<open>onSubtasksCreated\<close> props.
\<close>

record SubtaskModal =
  suggestions :: "SubtaskSuggestion list"
  selectedSubtasks :: "nat list"
  modal_isLoading :: bool
  isCreating :: bool
  modal_error :: "string option"
  callbacks :: "string list"

definition initial_modal :: SubtaskModal where
  "initial_modal =
     \<lparr>suggestions = [], selectedSubtasks = [], modal_isLoading = True, isCreating = False,
      modal_error = None, callbacks = []\<rparr>"

definition load_error_text :: string where
  "load_error_text =
     ''N'' @ [CHR 0xC3, CHR 0xA3] @ ''o foi poss'' @ [CHR 0xC3, CHR 0xAD] @ ''vel gerar sugest'' @
     [CHR 0xC3, CHR 0xB5] @ ''es de subtarefas. Tente novamente.''"

definition create_error_text :: string where
  "create_error_text = ''Erro ao criar subtarefas. Tente novamente.''"

definition loadSuggestions ::
  "(string \<Rightarrow> string option \<Rightarrow> ApiError + SubtaskSuggestion list \<times> string) \<Rightarrow>
   string \<Rightarrow> string option \<Rightarrow> SubtaskModal \<Rightarrow> SubtaskModal"
where
  "loadSuggestions suggestSubtasks taskTitle taskDescription m =
     (let m1 = m\<lparr>modal_isLoading := True, modal_error := None\<rparr>
      in case suggestSubtasks taskTitle taskDescription of
           Inr (subtasks, provider) \<Rightarrow>
             m1\<lparr>suggestions := subtasks, selectedSubtasks := [0..<length subtasks],
                modal_isLoading := False\<rparr>
         | Inl e \<Rightarrow> m1\<lparr>modal_error := Some load_error_text, modal_isLoading := False\<rparr>)"

text \<open>
  \<open>handleCreateSubtasks\<close>: \<open>Promise.all\<close> over one \<open>createSubtask\<close> call per selected
  index; an index outside the list gives \<open>undefined\<close>, whose \<open>.title\<close> throws into the same
  \<open>catch\<close>.
\<close>

definition handleCreateSubtasks ::
  "(string \<Rightarrow> SubtaskSuggestion \<Rightarrow> ApiError + Task) \<Rightarrow> string \<Rightarrow> SubtaskModal \<Rightarrow> SubtaskModal"
where
  "handleCreateSubtasks createSubtask taskId m =
     (if selectedSubtasks m = [] then m\<lparr>callbacks := callbacks m @ [''onClose'']\<rparr>
      else
        let m1 = m\<lparr>isCreating := True\<rparr>;
            in_range = list_all (\<lambda>i. i < length (suggestions m)) (selectedSubtasks m);
            results = map (\<lambda>i. createSubtask taskId (suggestions m ! i)) (selectedSubtasks m)
        in if in_range \<and> list_all (\<lambda>r. \<not> isl r) results
           then m1\<lparr>callbacks := callbacks m1 @ [''onSubtasksCreated'', ''onClose''],
                   isCreating := False\<rparr>
           else m1\<lparr>modal_error := Some create_error_text,
                   isCreating := False\<rparr>)"

datatype View = LoadingView | ErrorView string | NoSuggestionsView | SuggestionListView

text \<open>The body of the modal: \<open>isLoading ? ... : error ? ... : suggestions.length === 0 ? ... : ...\<close>.\<close>

definition render :: "SubtaskModal \<Rightarrow> View" where
  "render m =
     (if modal_isLoading m then LoadingView
      else case modal_error m of
             Some e \<Rightarrow> if e = [] then
                         (if length (suggestions m) = 0 then NoSuggestionsView else SuggestionListView)
                       else ErrorView e
           | None \<Rightarrow> if length (suggestions m) = 0 then NoSuggestionsView else SuggestionListView)"


section \<open>components/NaturalLanguageInput: creating a task, then asking for subtasks\<close>

record NaturalLanguageInput =
  input :: string
  nl_isLoading :: bool
  preview :: "Task option"
  showSubtaskModal :: bool
  createdTask :: "Task option"

text \<open>
  \<open>!input.trim()\<close>: the input is nothing but white space. \<open>trim\<close> strips the code points
  of the ECMAScript productions \<open>WhiteSpace\<close> and \<open>LineTerminator\<close>: U+0009 to U+000D,
  U+0020, U+00A0, U+1680, U+2000 to U+200A, U+2028, U+2029, U+202F, U+205F, U+3000 and
  U+FEFF. A string here holds the UTF-8 bytes of the text, so each of them is one, two or
  three bytes.
\<close>

definition white_space :: "string list" where
  "white_space =
     [[CHR 0x09], [CHR 0x0A], [CHR 0x0B], [CHR 0x0C], [CHR 0x0D], [CHR 0x20],
      [CHR 0xC2, CHR 0xA0], [CHR 0xE1, CHR 0x9A, CHR 0x80], [CHR 0xE2, CHR 0x80, CHR 0x80],
      [CHR 0xE2, CHR 0x80, CHR 0x81], [CHR 0xE2, CHR 0x80, CHR 0x82],
      [CHR 0xE2, CHR 0x80, CHR 0x83], [CHR 0xE2, CHR 0x80, CHR 0x84],
      [CHR 0xE2, CHR 0x80, CHR 0x85], [CHR 0xE2, CHR 0x80, CHR 0x86],
      [CHR 0xE2, CHR 0x80, CHR 0x87], [CHR 0xE2, CHR 0x80, CHR 0x88],
      [CHR 0xE2, CHR 0x80, CHR 0x89], [CHR 0xE2, CHR 0x80, CHR 0x8A],
      [CHR 0xE2, CHR 0x80, CHR 0xA8], [CHR 0xE2, CHR 0x80, CHR 0xA9],
      [CHR 0xE2, CHR 0x80, CHR 0xAF], [CHR 0xE2, CHR 0x81, CHR 0x9F],
      [CHR 0xE3, CHR 0x80, CHR 0x80], [CHR 0xEF, CHR 0xBB, CHR 0xBF]]"

fun blank :: "string \<Rightarrow> bool" where
  "blank [] = True"
| "blank [a] = ([a] \<in> set white_space)"
| "blank [a, b] = ([a] \<in> set white_space \<and> blank [b] \<or> [a, b] \<in> set white_space)"
| "blank (a # b # c # s) =
     ([a] \<in> set white_space \<and> blank (b # c # s) \<or>
      [a, b] \<in> set white_space \<and> blank (c # s) \<or>
      [a, b, c] \<in> set white_space \<and> blank s)"

text \<open>
  \<open>handleSubmit\<close>, with the 500 ms timer that opens the modal already fired. The store
  action is \<open>createTask\<close> above.
\<close>

definition handleSubmit ::
  "(string \<Rightarrow> string option \<Rightarrow> ApiError + Task) \<Rightarrow> NaturalLanguageInput \<times> TaskState \<Rightarrow>
   NaturalLanguageInput \<times> TaskState"
where
  "handleSubmit createTaskNaturalLanguage ns =
     (let n = fst ns; s = snd ns in
      if blank (input n) then (n, s)
      else
        case createTask createTaskNaturalLanguage (input n) None s of
          (s', Inr task) \<Rightarrow>
            (n\<lparr>preview := Some task, createdTask := Some task, input := [],
               showSubtaskModal := True, nl_isLoading := False\<rparr>, s')
        | (s', Inl e) \<Rightarrow> (n\<lparr>nl_isLoading := False\<rparr>, s'))"

text \<open>
  \<open>{showSubtaskModal && createdTask && <SubtaskSuggestionsModal .../>}\<close>: the modal is
  mounted for the created task, and its mount effect runs \<open>loadSuggestions\<close>.
\<close>

definition mounted_modal ::
  "(string \<Rightarrow> string option \<Rightarrow> ApiError + SubtaskSuggestion list \<times> string) \<Rightarrow>
   NaturalLanguageInput \<Rightarrow> SubtaskModal option"
where
  "mounted_modal suggestSubtasks n =
     (if showSubtaskModal n then
        (case createdTask n of
           None \<Rightarrow> None
         | Some t \<Rightarrow> Some (loadSuggestions suggestSubtasks (title t) (description t) initial_modal))
      else None)"

section \<open>services/websocket and the application shell\<close>

datatype ReadyState = CONNECTING | OPEN | CLOSING | CLOSED

datatype Handler = TaskCreatedHandler | TaskUpdatedHandler | TaskDeletedHandler

text \<open>
  \<open>ws\<close> is the ready state of the current socket (\<open>None\<close> for \<open>null\<close>). The host's timer
  table is part of the state: \<open>timers\<close> holds the pending time-outs as (handle, delay in
  ms, token captured by the callback), \<open>next_timer\<close> the next handle. \<open>opened\<close> logs the
  \<open>new WebSocket\<close> calls.
\<close>

record WebSocketService =
  ws :: "ReadyState option"
  reconnectInterval :: nat
  reconnectTimer :: "nat option"
  listeners :: "(string \<times> Handler) list"
  timers :: "(nat \<times> nat \<times> string) list"
  next_timer :: nat
  opened :: "string list"












text \<open>
  The client as a whole: the store, the socket service and the number of \<open>fetchTasks\<close>
  calls made so far. \<open>Authenticated\<close> is the effect of the application shell that runs when
  \<open>isAuthenticated\<close> becomes true (\<open>setupWebSocket(); fetchTasks({})\<close>), after the auth store
  has called \<open>connect\<close>. \<open>ViewFetch\<close> stands for every other call site of \<open>fetchTasks\<close>:
  the mount and filter effects of the list, board and calendar views and the callbacks
  that the shell and the views pass to their dialogs (\<open>onTaskCreated\<close>, \<open>onSaved\<close>,
  \<open>onTaskUpdated\<close>), each with the options it passes. The other events are those of the
  socket and of its reconnect time-out.
\<close>

record Client =
  store :: TaskState
  socket :: WebSocketService
  fetch_calls :: nat






section \<open>The task service behind \<open>PUT /api/tasks/{id}\<close>\<close>

record TaskUpdate =
  upd_title :: "string option"
  upd_status :: "string option"
  upd_priority :: "string option"

text \<open>
  Modelled from the spec: the handler of \<open>updateTask(id, partial)\<close> of the task service,
  which is not among the sources (only the schema of the \<open>tasks\<close> table and the client that
  calls the endpoint are). A partial update overwrites the fields it carries; changing the
  status to the done class sets the completion timestamp, leaving the done class clears it.
\<close>

definition apply_update :: "int \<Rightarrow> TaskUpdate \<Rightarrow> Task \<Rightarrow> Task" where
  "apply_update now u t =
     (let new_status = (case upd_status u of None \<Rightarrow> status t | Some st \<Rightarrow> st);
          t1 = t\<lparr>title := (case upd_title u of None \<Rightarrow> title t | Some x \<Rightarrow> x),
                 status := new_status,
                 priority := (case upd_priority u of None \<Rightarrow> priority t | Some x \<Rightarrow> x)\<rparr>
      in if isStatusDone (Prim new_status) \<and> \<not> isStatusDone (Prim (status t))
         then t1\<lparr>completed_at := Some now\<rparr>
         else if \<not> isStatusDone (Prim new_status) \<and> isStatusDone (Prim (status t))
         then t1\<lparr>completed_at := None\<rparr>
         else t1)"

text \<open>
  Modelled from the spec: the endpoint over the task table, which answers with the updated
  task, or with a not-found error for an id it does not hold.
\<close>

definition server_updateTask ::
  "int \<Rightarrow> Task list \<Rightarrow> string \<Rightarrow> TaskUpdate \<Rightarrow> (ApiError + Task) \<times> Task list" where
  "server_updateTask now db taskId u =
     (case find (\<lambda>t. task_id t = taskId) db of
        None \<Rightarrow> (Inl \<lparr>err_status = Some 404, detail = Some ''Task not found'', message = ''Request failed''\<rparr>, db)
      | Some t \<Rightarrow>
          (Inr (apply_update now u t),
           map (\<lambda>x. if task_id x = taskId then apply_update now u t else x) db))"


section \<open>Sample data\<close>

definition task_done_en :: Task where
  "task_done_en =
     \<lparr>task_id = ''1'', title = ''Pay rent'', description = None, status = ''done'',
      priority = ''urgent'', due_date = None, completed_at = Some 10\<rparr>"

definition task_done_pt :: Task where
  "task_done_pt =
     \<lparr>task_id = ''2'', title = ''Pagar aluguel'', description = None, status = ''concluida'',
      priority = ''urgente'', due_date = None, completed_at = Some 20\<rparr>"

definition empty_store :: TaskState where
  "empty_store = \<lparr>tasks = [], total = 0, isLoading = False, error = None\<rparr>"

definition failure :: ApiError where
  "failure = \<lparr>err_status = Some 500, detail = None, message = ''Request failed with status code 500''\<rparr>"

definition sample_store :: TaskState where
  "sample_store = \<lparr>tasks = [task_done_pt, task_done_en], total = 2, isLoading = False, error = None\<rparr>"

definition no_options :: FetchOptions where
  "no_options = \<lparr>opt_status = None, opt_limit = None, opt_offset = None\<rparr>"

definition cancel_button :: ActionButton where
  "cancel_button = \<lparr>label = ''Cancelar'', action = ''cancel'', data = Some [(''task_id'', ''1'')]\<rparr>"

definition wipe_all :: "ChatActionRequest \<Rightarrow> Task list \<Rightarrow> (ApiError + ChatActionResponse) \<times> Task list" where
  "wipe_all request db = (Inr \<lparr>success = True, resp_message = ''deleted''\<rparr>, [])"

definition sample_chat :: "ChatAssistant \<times> World" where
  "sample_chat =
     (\<lparr>messages = [], loading = False\<rparr>,
      \<lparr>server_tasks = [task_done_pt, task_done_en], window_events = []\<rparr>)"

definition unauthorized :: ApiError where
  "unauthorized = \<lparr>err_status = Some 401, detail = Some ''Could not validate credentials'',
                    message = ''Request failed with status code 401''\<rparr>"

definition logged_out :: Browser where
  "logged_out =
     \<lparr>localStorage = \<lparr>access_token = None, refresh_token = None\<rparr>,
      location_href = ''/'', sent = [], refresh_calls = []\<rparr>"

definition logged_in :: Browser where
  "logged_in =
     \<lparr>localStorage = \<lparr>access_token = Some ''expired'', refresh_token = Some ''r1''\<rparr>,
      location_href = ''/'', sent = [], refresh_calls = []\<rparr>"

definition login_request :: Request where
  "login_request = \<lparr>url = ''/auth/login'', authorization = None, retry = False\<rparr>"

definition tasks_request :: Request where
  "tasks_request = \<lparr>url = ''/tasks'', authorization = None, retry = False\<rparr>"

definition rejects_all :: "nat \<Rightarrow> Request \<Rightarrow> ApiError + string" where
  "rejects_all n config = Inl unauthorized"

definition accepts_fresh :: "nat \<Rightarrow> Request \<Rightarrow> ApiError + string" where
  "accepts_fresh n config =
     (if authorization config = Some ''Bearer fresh'' then Inr ''[]'' else Inl unauthorized)"

definition refresh_ok :: "string \<Rightarrow> ApiError + string \<times> string" where
  "refresh_ok token = Inr (''fresh'', ''r2'')"

definition refresh_expired :: "string \<Rightarrow> ApiError + string \<times> string" where
  "refresh_expired token = Inl unauthorized"




definition task_a_fazer :: Task where
  "task_a_fazer =
     \<lparr>task_id = ''7'', title = ''Write report'', description = None, status = ''a_fazer'',
      priority = ''media'', due_date = None, completed_at = None\<rparr>"

definition set_status :: "string \<Rightarrow> TaskUpdate" where
  "set_status st = \<lparr>upd_title = None, upd_status = Some st, upd_priority = None\<rparr>"

definition typing_buy_milk :: NaturalLanguageInput where
  "typing_buy_milk =
     \<lparr>input = ''buy milk'', nl_isLoading = False, preview = None, showSubtaskModal = False,
      createdTask = None\<rparr>"

definition provider_down :: "string \<Rightarrow> string option \<Rightarrow> ApiError + SubtaskSuggestion list \<times> string" where
  "provider_down taskTitle taskDescription = Inl failure"

definition provider_empty :: "string \<Rightarrow> string option \<Rightarrow> ApiError + SubtaskSuggestion list \<times> string" where
  "provider_empty taskTitle taskDescription = Inr ([], ''unknown'')"

definition creates_task_a_fazer :: "string \<Rightarrow> string option \<Rightarrow> ApiError + Task" where
  "creates_task_a_fazer txt projectId = Inr task_a_fazer"

definition suggestion_outline :: SubtaskSuggestion where
  "suggestion_outline =
     \<lparr>sub_title = ''Outline'', sub_description = ''Draft the outline'', estimated_duration = 30\<rparr>"

definition provider_one :: "string \<Rightarrow> string option \<Rightarrow> ApiError + SubtaskSuggestion list \<times> string" where
  "provider_one taskTitle taskDescription = Inr ([suggestion_outline], ''openai'')"

definition subtask_created :: "string \<Rightarrow> SubtaskSuggestion \<Rightarrow> ApiError + Task" where
  "subtask_created taskId subtask = Inr task_a_fazer"

definition subtask_rejected :: "string \<Rightarrow> SubtaskSuggestion \<Rightarrow> ApiError + Task" where
  "subtask_rejected taskId subtask = Inl failure"

section \<open>Properties of the alias layer\<close>

lemma normalizeStatus_unfold:
  "normalizeStatus (Prim s) =
     (if s = ''todo'' then Prim ''a_fazer''
      else if s = ''pending'' then Prim ''a_fazer''
      else if s = ''in_progress'' then Prim ''em_progresso''
      else if s = ''done'' then Prim ''concluida''
      else if s = ''cancelled'' then Prim ''cancelada''
      else if s \<in> set object_prototype_members then Inherited s
      else Prim s)"
  by (simp add: normalizeStatus_def get_property_def property_key_def status_mapping_def)

lemma normalizePriority_unfold:
  "normalizePriority (Prim p) =
     (if p = ''low'' then Prim ''baixa''
      else if p = ''medium'' then Prim ''media''
      else if p = ''high'' then Prim ''alta''
      else if p = ''urgent'' then Prim ''urgente''
      else if p \<in> set object_prototype_members then Inherited p
      else Prim p)"
  by (simp add: normalizePriority_def get_property_def property_key_def priority_mapping_def)

text \<open>The key that a built-in converts to holds a space, and no property name here does.\<close>

lemma property_key_Inherited_space: "CHR '' '' \<in> set (property_key (Inherited m))"
  by (simp add: property_key_def)

lemma get_property_Inherited:
  "get_property status_mapping (property_key (Inherited m)) = None"
  "get_property priority_mapping (property_key (Inherited m)) = None"
proof -
  have own: "\<forall>k \<in> fst ` set status_mapping \<union> fst ` set priority_mapping. CHR '' '' \<notin> set k"
    by (simp add: status_mapping_def priority_mapping_def)
  have inherited: "\<forall>k \<in> set object_prototype_members. CHR '' '' \<notin> set k"
    by (simp add: object_prototype_members_def)
  have a: "map_of status_mapping (property_key (Inherited m)) = None"
    using own property_key_Inherited_space [of m] by (auto simp: map_of_eq_None_iff)
  have b: "map_of priority_mapping (property_key (Inherited m)) = None"
    using own property_key_Inherited_space [of m] by (auto simp: map_of_eq_None_iff)
  have c: "property_key (Inherited m) \<notin> set object_prototype_members"
    using inherited property_key_Inherited_space [of m] by blast
  show "get_property status_mapping (property_key (Inherited m)) = None"
    by (simp add: get_property_def a c)
  show "get_property priority_mapping (property_key (Inherited m)) = None"
    by (simp add: get_property_def b c)
qed

lemma normalize_Inherited:
  "normalizeStatus (Inherited m) = Inherited m"
  "normalizePriority (Inherited m) = Inherited m"
  by (simp_all add: normalizeStatus_def normalizePriority_def get_property_Inherited)

lemma normalizeStatus_idem: "normalizeStatus (normalizeStatus (Prim s)) = normalizeStatus (Prim s)"
  by (simp add: normalizeStatus_unfold normalize_Inherited object_prototype_members_def)

lemma normalizePriority_idem:
  "normalizePriority (normalizePriority (Prim p)) = normalizePriority (Prim p)"
  by (simp add: normalizePriority_unfold normalize_Inherited object_prototype_members_def)

lemma status_predicates_normalize:
  "isStatusDone (normalizeStatus (Prim s)) = isStatusDone (Prim s)"
  "isStatusTodo (normalizeStatus (Prim s)) = isStatusTodo (Prim s)"
  "isStatusInProgress (normalizeStatus (Prim s)) = isStatusInProgress (Prim s)"
  "isStatusCancelled (normalizeStatus (Prim s)) = isStatusCancelled (Prim s)"
  by (auto simp: normalizeStatus_unfold isStatusDone_def isStatusTodo_def
        isStatusInProgress_def isStatusCancelled_def object_prototype_members_def)

lemma priority_predicates_normalize:
  "isPriorityLow (normalizePriority (Prim p)) = isPriorityLow (Prim p)"
  "isPriorityMedium (normalizePriority (Prim p)) = isPriorityMedium (Prim p)"
  "isPriorityHigh (normalizePriority (Prim p)) = isPriorityHigh (Prim p)"
  "isPriorityUrgent (normalizePriority (Prim p)) = isPriorityUrgent (Prim p)"
  by (auto simp: normalizePriority_unfold isPriorityLow_def isPriorityMedium_def
        isPriorityHigh_def isPriorityUrgent_def object_prototype_members_def)

text \<open>
  Claim C4. Two tasks whose stored status (priority) strings are aliases of one logical
  status (priority), that is, have the same normal form, are told apart by none of the
  equivalence-class predicates; and each predicate accepts every alias of its class:
  \<open>isStatusDone\<close> both \<open>done\<close> and \<open>concluida\<close>, \<open>isStatusCancelled\<close> both \<open>cancelled\<close> and
  \<open>cancelada\<close>, \<open>isStatusInProgress\<close> both \<open>in_progress\<close> and \<open>em_progresso\<close>, \<open>isStatusTodo\<close>
  all of \<open>todo\<close>, \<open>a_fazer\<close> and \<open>pending\<close>, and each \<open>isPriority*\<close> predicate the English and
  the Portuguese name of its priority.
\<close>

theorem alias_predicates_agree:
  assumes "normalizeStatus (Prim (status t)) = normalizeStatus (Prim (status t'))"
    and "normalizePriority (Prim (priority t)) = normalizePriority (Prim (priority t'))"
  shows "isStatusDone (Prim (status t)) = isStatusDone (Prim (status t')) \<and>
         isStatusCancelled (Prim (status t)) = isStatusCancelled (Prim (status t')) \<and>
         isStatusInProgress (Prim (status t)) = isStatusInProgress (Prim (status t')) \<and>
         isStatusTodo (Prim (status t)) = isStatusTodo (Prim (status t')) \<and>
         isPriorityLow (Prim (priority t)) = isPriorityLow (Prim (priority t')) \<and>
         isPriorityMedium (Prim (priority t)) = isPriorityMedium (Prim (priority t')) \<and>
         isPriorityHigh (Prim (priority t)) = isPriorityHigh (Prim (priority t')) \<and>
         isPriorityUrgent (Prim (priority t)) = isPriorityUrgent (Prim (priority t')) \<and>
         isStatusDone (Prim ''done'') \<and> isStatusDone (Prim ''concluida'') \<and>
         isStatusCancelled (Prim ''cancelled'') \<and> isStatusCancelled (Prim ''cancelada'') \<and>
         isStatusInProgress (Prim ''in_progress'') \<and> isStatusInProgress (Prim ''em_progresso'') \<and>
         isStatusTodo (Prim ''todo'') \<and> isStatusTodo (Prim ''a_fazer'') \<and>
         isStatusTodo (Prim ''pending'') \<and>
         isPriorityLow (Prim ''low'') \<and> isPriorityLow (Prim ''baixa'') \<and>
         isPriorityMedium (Prim ''medium'') \<and> isPriorityMedium (Prim ''media'') \<and>
         isPriorityHigh (Prim ''high'') \<and> isPriorityHigh (Prim ''alta'') \<and>
         isPriorityUrgent (Prim ''urgent'') \<and> isPriorityUrgent (Prim ''urgente'')"
proof -
  have st: "P (Prim (status t)) = P (Prim (status t'))"
    if "\<And>s. P (normalizeStatus (Prim s)) = P (Prim s)" for P :: "string JsValue \<Rightarrow> bool"
    using that [of "status t"] that [of "status t'"] assms(1) by simp
  have pr: "P (Prim (priority t)) = P (Prim (priority t'))"
    if "\<And>p. P (normalizePriority (Prim p)) = P (Prim p)" for P :: "string JsValue \<Rightarrow> bool"
    using that [of "priority t"] that [of "priority t'"] assms(2) by simp
  have aliases:
    "isStatusDone (Prim ''done'') \<and> isStatusDone (Prim ''concluida'') \<and>
     isStatusCancelled (Prim ''cancelled'') \<and> isStatusCancelled (Prim ''cancelada'') \<and>
     isStatusInProgress (Prim ''in_progress'') \<and> isStatusInProgress (Prim ''em_progresso'') \<and>
     isStatusTodo (Prim ''todo'') \<and> isStatusTodo (Prim ''a_fazer'') \<and>
     isStatusTodo (Prim ''pending'') \<and>
     isPriorityLow (Prim ''low'') \<and> isPriorityLow (Prim ''baixa'') \<and>
     isPriorityMedium (Prim ''medium'') \<and> isPriorityMedium (Prim ''media'') \<and>
     isPriorityHigh (Prim ''high'') \<and> isPriorityHigh (Prim ''alta'') \<and>
     isPriorityUrgent (Prim ''urgent'') \<and> isPriorityUrgent (Prim ''urgente'')"
    by (simp add: isStatusDone_def isStatusCancelled_def isStatusInProgress_def isStatusTodo_def
        isPriorityLow_def isPriorityMedium_def isPriorityHigh_def isPriorityUrgent_def)
  show ?thesis
    using st [of isStatusDone] st [of isStatusCancelled] st [of isStatusInProgress]
      st [of isStatusTodo] pr [of isPriorityLow] pr [of isPriorityMedium]
      pr [of isPriorityHigh] pr [of isPriorityUrgent] aliases
    by (simp only: status_predicates_normalize priority_predicates_normalize simp_thms)
qed

theorem alias_predicates_agree_witness:
  "normalizeStatus (Prim (status task_done_en)) = normalizeStatus (Prim (status task_done_pt)) \<and>
   normalizePriority (Prim (priority task_done_en)) = normalizePriority (Prim (priority task_done_pt)) \<and>
   status task_done_en \<noteq> status task_done_pt \<and>
   isStatusDone (Prim (status task_done_en)) = isStatusDone (Prim (status task_done_pt)) \<and>
   isStatusDone (Prim (status task_done_pt)) \<and>
   isPriorityUrgent (Prim (priority task_done_en)) = isPriorityUrgent (Prim (priority task_done_pt)) \<and>
   isPriorityUrgent (Prim (priority task_done_pt))"
proof -
  have s: "normalizeStatus (Prim (status task_done_en)) = normalizeStatus (Prim (status task_done_pt))"
    by (simp add: task_done_en_def task_done_pt_def normalizeStatus_unfold
        object_prototype_members_def)
  have p: "normalizePriority (Prim (priority task_done_en)) =
           normalizePriority (Prim (priority task_done_pt))"
    by (simp add: task_done_en_def task_done_pt_def normalizePriority_unfold
        object_prototype_members_def)
  have d: "isStatusDone (Prim (status task_done_pt)) \<and>
           isPriorityUrgent (Prim (priority task_done_pt)) \<and>
           status task_done_en \<noteq> status task_done_pt"
    by (simp add: task_done_en_def task_done_pt_def isStatusDone_def isPriorityUrgent_def)
  show ?thesis
    using alias_predicates_agree [OF s p] s p d by blast
qed

text \<open>
  Claim C9. \<open>normalizeStatus\<close> and \<open>normalizePriority\<close> are idempotent on every string,
  the names of built-ins included, and each of the eight equivalence-class predicates
  gives the same answer on a string and on what the string is normalised to.
\<close>

theorem normalize_idempotent_predicates_invariant:
  "normalizeStatus (normalizeStatus (Prim s)) = normalizeStatus (Prim s) \<and>
   normalizePriority (normalizePriority (Prim p)) = normalizePriority (Prim p) \<and>
   isStatusDone (Prim s) = isStatusDone (normalizeStatus (Prim s)) \<and>
   isStatusTodo (Prim s) = isStatusTodo (normalizeStatus (Prim s)) \<and>
   isStatusInProgress (Prim s) = isStatusInProgress (normalizeStatus (Prim s)) \<and>
   isStatusCancelled (Prim s) = isStatusCancelled (normalizeStatus (Prim s)) \<and>
   isPriorityLow (Prim p) = isPriorityLow (normalizePriority (Prim p)) \<and>
   isPriorityMedium (Prim p) = isPriorityMedium (normalizePriority (Prim p)) \<and>
   isPriorityHigh (Prim p) = isPriorityHigh (normalizePriority (Prim p)) \<and>
   isPriorityUrgent (Prim p) = isPriorityUrgent (normalizePriority (Prim p))"
  using normalizeStatus_idem [of s] normalizePriority_idem [of p]
  by (simp only: status_predicates_normalize priority_predicates_normalize simp_thms)

theorem normalize_idempotent_predicates_invariant_witness:
  "normalizeStatus (normalizeStatus (Prim ''pending'')) = Prim ''a_fazer'' \<and>
   normalizePriority (normalizePriority (Prim ''high'')) = Prim ''alta'' \<and>
   isStatusTodo (normalizeStatus (Prim ''pending'')) \<and>
   isPriorityHigh (normalizePriority (Prim ''high'')) \<and>
   \<not> isStatusDone (normalizeStatus (Prim ''pending'')) \<and>
   normalizeStatus (normalizeStatus (Prim ''constructor'')) = Inherited ''constructor'' \<and>
   normalizePriority (normalizePriority (Prim ''__proto__'')) = Inherited ''__proto__'' \<and>
   \<not> isStatusDone (normalizeStatus (Prim ''constructor''))"
proof -
  have a: "normalizeStatus (Prim ''pending'') = Prim ''a_fazer''"
    "normalizePriority (Prim ''high'') = Prim ''alta''"
    "normalizeStatus (Prim ''constructor'') = Inherited ''constructor''"
    "normalizePriority (Prim ''__proto__'') = Inherited ''__proto__''"
    by (simp_all add: normalizeStatus_unfold normalizePriority_unfold object_prototype_members_def)
  have b: "isStatusTodo (Prim ''pending'')" "isPriorityHigh (Prim ''high'')"
    "\<not> isStatusDone (Prim ''pending'')" "\<not> isStatusDone (Prim ''constructor'')"
    by (simp_all add: isStatusTodo_def isPriorityHigh_def isStatusDone_def)
  show ?thesis
    using normalize_idempotent_predicates_invariant [of "''pending''" "''high''"]
      normalize_idempotent_predicates_invariant [of "''constructor''" "''__proto__''"] a b
    by simp
qed

section \<open>Statistics and the alias classes\<close>

text \<open>The header counter of the task list view goes through the predicates, so it does not
  depend on which alias a task stores.\<close>

lemma highPriorityCount_alias_invariant:
  assumes "list_all2 (\<lambda>t t'. normalizeStatus (Prim (status t)) = normalizeStatus (Prim (status t')) \<and>
             normalizePriority (Prim (priority t)) = normalizePriority (Prim (priority t'))) ts ts'"
  shows "highPriorityCount ts = highPriorityCount ts'"
proof -
  have same: "P (Prim a) = P (Prim b)"
    if "N (Prim a) = N (Prim b)" "\<And>x. P (N (Prim x)) = P (Prim x)"
    for P :: "string JsValue \<Rightarrow> bool" and N a b
    using that(2) [of a] that(2) [of b] that(1) by simp
  from assms show ?thesis
    unfolding highPriorityCount_def
  proof (induction rule: list_all2_induct)
    case Nil
    show ?case by simp
  next
    case (Cons t ts t' ts')
    from Cons.hyps(1)
    have n: "normalizeStatus (Prim (status t)) = normalizeStatus (Prim (status t'))"
      "normalizePriority (Prim (priority t)) = normalizePriority (Prim (priority t'))"
      by simp_all
    have "isPriorityHigh (Prim (priority t)) = isPriorityHigh (Prim (priority t'))"
      "isPriorityUrgent (Prim (priority t)) = isPriorityUrgent (Prim (priority t'))"
      "isStatusDone (Prim (status t)) = isStatusDone (Prim (status t'))"
      "isStatusCancelled (Prim (status t)) = isStatusCancelled (Prim (status t'))"
      using same [of normalizePriority "priority t" "priority t'" isPriorityHigh]
        same [of normalizePriority "priority t" "priority t'" isPriorityUrgent]
        same [of normalizeStatus "status t" "status t'" isStatusDone]
        same [of normalizeStatus "status t" "status t'" isStatusCancelled] n
      by (simp_all add: status_predicates_normalize priority_predicates_normalize)
    with Cons.IH show ?case by simp
  qed
qed

text \<open>
  Claim C1. Every derivation over tasks is meant to give the same result whichever alias
  of a logical status or priority a task stores. \<open>ProgressStats\<close> and \<open>priorityValue\<close>
  compare the raw strings instead: a task stored as \<open>a_fazer\<close> with priority \<open>media\<close>
  (what the creation form sends) is counted neither as to-do nor as medium, a task stored
  as \<open>concluida\<close> is not counted as completed and is counted as overdue, a task stored as
  \<open>urgente\<close> is not counted as urgent, and the Portuguese priorities sort with key 0,
  while the same tasks under the English aliases are handled as expected, and the counter
  of the task list view agrees on both aliases.
\<close>

theorem progress_stats_compares_raw_strings:
  "todo (progress_stats 100 [task_a_fazer]) = 0 \<and>
   todo (progress_stats 100 [task_a_fazer\<lparr>status := ''todo''\<rparr>]) = 1 \<and>
   medium (progress_stats 100 [task_a_fazer]) = 0 \<and>
   medium (progress_stats 100 [task_a_fazer\<lparr>priority := ''medium''\<rparr>]) = 1 \<and>
   completed (progress_stats 100 [task_done_en]) = 1 \<and>
   completed (progress_stats 100 [task_done_en\<lparr>status := ''concluida''\<rparr>]) = 0 \<and>
   overdue (progress_stats 100 [task_done_en\<lparr>due_date := Some 50\<rparr>]) = 0 \<and>
   overdue (progress_stats 100 [task_done_en\<lparr>due_date := Some 50, status := ''concluida''\<rparr>]) = 1 \<and>
   urgent (progress_stats 100 [task_done_en\<lparr>status := ''todo''\<rparr>]) = 1 \<and>
   urgent (progress_stats 100 [task_done_en\<lparr>status := ''todo'', priority := ''urgente''\<rparr>]) = 0 \<and>
   priorityValue ''medium'' = Prim 2 \<and> priorityValue ''media'' = Prim 0 \<and>
   priorityValue ''urgent'' = Prim 4 \<and> priorityValue ''urgente'' = Prim 0 \<and>
   highPriorityCount [task_done_en\<lparr>status := ''todo''\<rparr>] =
   highPriorityCount [task_done_en\<lparr>status := ''todo'', priority := ''urgente''\<rparr>]"
  by (simp add: progress_stats_def task_done_en_def task_a_fazer_def open_with_priority_def
      priorityValue_def get_property_def object_prototype_members_def highPriorityCount_def
      isPriorityHigh_def isPriorityUrgent_def isStatusDone_def isStatusCancelled_def)

section \<open>The store\<close>

text \<open>
  Claim C10. When the API call behind \<open>fetchTasks\<close>, \<open>createTask\<close>,
  \<open>createTaskStructured\<close>, \<open>updateTask\<close> or \<open>deleteTask\<close> is rejected, the store after
  the action is the store before it with \<open>error\<close> set to a message and \<open>isLoading\<close> false:
  \<open>tasks\<close> and \<open>total\<close> are untouched.
\<close>

theorem store_actions_atomic_on_error:
  assumes "\<And>opts. isl (getTasks opts)"
    and "isl (createTaskNaturalLanguage txt projectId)"
    and "isl (api_createTaskStructured taskData)"
    and "isl (api_updateTask taskId updates)"
    and "isl (api_deleteTask taskId)"
  shows "(\<exists>msg. fst (fetchTasks getTasks options s) = s\<lparr>error := Some msg, isLoading := False\<rparr>) \<and>
         (\<exists>msg. fst (createTask createTaskNaturalLanguage txt projectId s) =
                 s\<lparr>error := Some msg, isLoading := False\<rparr>) \<and>
         (\<exists>msg. fst (createTaskStructured api_createTaskStructured taskData s) =
                 s\<lparr>error := Some msg, isLoading := False\<rparr>) \<and>
         (\<exists>msg. fst (updateTask api_updateTask taskId updates s) =
                 s\<lparr>error := Some msg, isLoading := False\<rparr>) \<and>
         (\<exists>msg. fst (deleteTask api_deleteTask taskId s) =
                 s\<lparr>error := Some msg, isLoading := False\<rparr>)"
proof -
  have 1: "\<exists>msg. fst (fetchTasks getTasks options s) = s\<lparr>error := Some msg, isLoading := False\<rparr>"
    using assms(1) [of "options\<lparr>opt_limit := Some (case opt_limit options of None \<Rightarrow> 100 | Some n \<Rightarrow> if n = 0 then 100 else n)\<rparr>"]
    by (auto simp: fetchTasks_def Let_def split: sum.splits)
  have 2: "\<exists>msg. fst (createTask createTaskNaturalLanguage txt projectId s) =
                 s\<lparr>error := Some msg, isLoading := False\<rparr>"
    using assms(2) by (auto simp: createTask_def Let_def split: sum.splits)
  have 3: "\<exists>msg. fst (createTaskStructured api_createTaskStructured taskData s) =
                 s\<lparr>error := Some msg, isLoading := False\<rparr>"
    using assms(3) by (auto simp: createTaskStructured_def Let_def split: sum.splits)
  have 4: "\<exists>msg. fst (updateTask api_updateTask taskId updates s) =
                 s\<lparr>error := Some msg, isLoading := False\<rparr>"
    using assms(4) by (auto simp: updateTask_def Let_def split: sum.splits)
  have 5: "\<exists>msg. fst (deleteTask api_deleteTask taskId s) =
                 s\<lparr>error := Some msg, isLoading := False\<rparr>"
    using assms(5) by (auto simp: deleteTask_def Let_def split: sum.splits)
  from 1 2 3 4 5 show ?thesis by blast
qed

theorem store_actions_atomic_on_error_witness:
  "isl ((\<lambda>_. Inl failure :: ApiError + Task list \<times> nat) no_options) \<and>
   tasks (fst (fetchTasks (\<lambda>_. Inl failure) no_options sample_store)) = [task_done_pt, task_done_en] \<and>
   total (fst (fetchTasks (\<lambda>_. Inl failure) no_options sample_store)) = 2 \<and>
   tasks (fst (createTask (\<lambda>_ _. Inl failure) ''buy milk'' None sample_store)) = [task_done_pt, task_done_en] \<and>
   tasks (fst (createTaskStructured (\<lambda>_. Inl failure) task_done_en sample_store)) = [task_done_pt, task_done_en] \<and>
   tasks (fst (updateTask (\<lambda>_ _. Inl failure) ''1'' ''status=todo'' sample_store)) = [task_done_pt, task_done_en] \<and>
   tasks (fst (deleteTask (\<lambda>_. Inl failure) ''1'' sample_store)) = [task_done_pt, task_done_en] \<and>
   total (fst (deleteTask (\<lambda>_. Inl failure) ''1'' sample_store)) = 2"
proof -
  have "(\<exists>msg. fst (fetchTasks (\<lambda>_. Inl failure) no_options sample_store) =
           sample_store\<lparr>error := Some msg, isLoading := False\<rparr>) \<and>
        (\<exists>msg. fst (createTask (\<lambda>_ _. Inl failure) ''buy milk'' None sample_store) =
           sample_store\<lparr>error := Some msg, isLoading := False\<rparr>) \<and>
        (\<exists>msg. fst (createTaskStructured (\<lambda>_. Inl failure) task_done_en sample_store) =
           sample_store\<lparr>error := Some msg, isLoading := False\<rparr>) \<and>
        (\<exists>msg. fst (updateTask (\<lambda>_ _. Inl failure) ''1'' ''status=todo'' sample_store) =
           sample_store\<lparr>error := Some msg, isLoading := False\<rparr>) \<and>
        (\<exists>msg. fst (deleteTask (\<lambda>_. Inl failure) ''1'' sample_store) =
           sample_store\<lparr>error := Some msg, isLoading := False\<rparr>)"
    by (rule store_actions_atomic_on_error) simp_all
  then show ?thesis
    by (auto simp: sample_store_def)
qed

subsection \<open>Push events\<close>

lemma replace_absent:
  "k \<notin> f ` set xs \<Longrightarrow> map (\<lambda>t. if f t = k then y else t) xs = xs"
  by (induction xs) auto

lemma replace_present:
  "k \<in> f ` set xs \<Longrightarrow> f y = k \<Longrightarrow> y \<in> set (map (\<lambda>t. if f t = k then y else t) xs)"
  by (induction xs) auto

lemma replace_same_key:
  "x \<in> set (map (\<lambda>t. if f t = k then y else t) xs) \<Longrightarrow> f y = k \<Longrightarrow> f x = k \<Longrightarrow> x = y"
  by (induction xs) (auto split: if_splits)

lemma replace_others:
  "f y = k \<Longrightarrow>
   filter (\<lambda>x. f x \<noteq> k) (map (\<lambda>t. if f t = k then y else t) xs) = filter (\<lambda>x. f x \<noteq> k) xs"
  by (induction xs) auto

text \<open>
  Claim C2, as the code has it. A \<open>task_updated\<close> event whose id is not in the local list
  leaves the store exactly as it was (the task is not added, and nothing fails); for an id
  that is in the list the payload is in the list afterwards, every entry with that id is the
  payload, and the entries with other ids, the length of the list and the other store
  fields are unchanged.
\<close>

theorem task_updated_replaces_only_present:
  "(task_id task \<notin> task_id ` set (tasks s) \<longrightarrow> on_task_updated task s = s) \<and>
   (task_id task \<in> task_id ` set (tasks s) \<longrightarrow> task \<in> set (tasks (on_task_updated task s))) \<and>
   (\<forall>x \<in> set (tasks (on_task_updated task s)). task_id x = task_id task \<longrightarrow> x = task) \<and>
   filter (\<lambda>x. task_id x \<noteq> task_id task) (tasks (on_task_updated task s)) =
     filter (\<lambda>x. task_id x \<noteq> task_id task) (tasks s) \<and>
   length (tasks (on_task_updated task s)) = length (tasks s) \<and>
   total (on_task_updated task s) = total s \<and>
   isLoading (on_task_updated task s) = isLoading s \<and>
   error (on_task_updated task s) = error s"
proof -
  let ?new = "map (\<lambda>t. if task_id t = task_id task then task else t) (tasks s)"
  have new: "tasks (on_task_updated task s) = ?new"
    by (simp add: on_task_updated_def)
  have absent: "task_id task \<notin> task_id ` set (tasks s) \<longrightarrow> on_task_updated task s = s"
    by (simp add: on_task_updated_def replace_absent)
  have present: "task_id task \<in> task_id ` set (tasks s) \<longrightarrow> task \<in> set ?new"
    using replace_present [of "task_id task" task_id "tasks s" task] by blast
  have unique: "\<forall>x \<in> set ?new. task_id x = task_id task \<longrightarrow> x = task"
    using replace_same_key [of _ task_id "task_id task" task "tasks s"] by blast
  have others: "filter (\<lambda>x. task_id x \<noteq> task_id task) ?new =
                filter (\<lambda>x. task_id x \<noteq> task_id task) (tasks s)"
    by (rule replace_others) simp
  have frame: "length ?new = length (tasks s) \<and> total (on_task_updated task s) = total s \<and>
     isLoading (on_task_updated task s) = isLoading s \<and>
     error (on_task_updated task s) = error s"
    by (simp add: on_task_updated_def)
  from absent present unique others frame show ?thesis
    unfolding new by blast
qed

theorem task_updated_replaces_only_present_witness:
  "task_id task_done_en \<notin> task_id ` set (tasks empty_store) \<and>
   on_task_updated task_done_en empty_store = empty_store \<and>
   task_id (task_done_en\<lparr>status := ''todo''\<rparr>)
     \<in> task_id ` set (tasks (empty_store\<lparr>tasks := [task_done_pt, task_done_en]\<rparr>)) \<and>
   task_done_en\<lparr>status := ''todo''\<rparr>
     \<in> set (tasks (on_task_updated (task_done_en\<lparr>status := ''todo''\<rparr>)
                     (empty_store\<lparr>tasks := [task_done_pt, task_done_en]\<rparr>)))"
proof -
  let ?s = "empty_store\<lparr>tasks := [task_done_pt, task_done_en]\<rparr>"
  let ?t = "task_done_en\<lparr>status := ''todo''\<rparr>"
  have a: "task_id task_done_en \<notin> task_id ` set (tasks empty_store)"
    by (simp add: empty_store_def)
  have b: "task_id ?t \<in> task_id ` set (tasks ?s)"
    by simp
  show ?thesis
    using task_updated_replaces_only_present [of task_done_en empty_store]
      task_updated_replaces_only_present [of ?t ?s] a b
    by blast
qed

text \<open>
  Claim C2, as stated, fails: the event for \<open>task_done_en\<close> arrives at a store that does
  not hold its id, and the task is not in the store afterwards.
\<close>

theorem task_updated_unknown_id_dropped:
  "task_id task_done_en \<notin> task_id ` set (tasks empty_store) \<and>
   task_done_en \<notin> set (tasks (on_task_updated task_done_en empty_store)) \<and>
   on_task_updated task_done_en empty_store = empty_store"
  by (simp add: on_task_updated_def empty_store_def)

subsection \<open>Completion timestamps through \<open>updateTask\<close>\<close>

text \<open>
  Claim C5. The store action \<open>updateTask\<close>, run against the task service, puts the
  service's answer in place of the task. When the update moves the status into the done
  class the answer carries a completion timestamp (the time of the update); when it
  moves the status out of the done class the timestamp is cleared; an update that stays on
  one side of the boundary leaves the timestamp as it was.
\<close>

theorem updateTask_completed_at:
  assumes "find (\<lambda>x. task_id x = taskId) db = Some t"
  shows "updateTask (\<lambda>i upd. fst (server_updateTask now db i upd)) taskId u s =
           (s\<lparr>tasks := map (\<lambda>x. if task_id x = taskId then apply_update now u t else x) (tasks s),
              error := None, isLoading := False\<rparr>, Inr ()) \<and>
         status (apply_update now u t) = (case upd_status u of None \<Rightarrow> status t | Some st \<Rightarrow> st) \<and>
         (\<not> isStatusDone (Prim (status t)) \<and> isStatusDone (Prim (status (apply_update now u t))) \<longrightarrow>
            completed_at (apply_update now u t) = Some now) \<and>
         (isStatusDone (Prim (status t)) \<and> \<not> isStatusDone (Prim (status (apply_update now u t))) \<longrightarrow>
            completed_at (apply_update now u t) = None) \<and>
         (isStatusDone (Prim (status t)) = isStatusDone (Prim (status (apply_update now u t))) \<longrightarrow>
            completed_at (apply_update now u t) = completed_at t)"
proof -
  have call: "fst (server_updateTask now db taskId u) = Inr (apply_update now u t)"
    using assms by (simp add: server_updateTask_def)
  have store: "updateTask (\<lambda>i upd. fst (server_updateTask now db i upd)) taskId u s =
           (s\<lparr>tasks := map (\<lambda>x. if task_id x = taskId then apply_update now u t else x) (tasks s),
              error := None, isLoading := False\<rparr>, Inr ())"
    by (simp add: updateTask_def call)
  have st: "status (apply_update now u t) = (case upd_status u of None \<Rightarrow> status t | Some st \<Rightarrow> st)"
    by (simp add: apply_update_def Let_def)
  have stamp: "completed_at (apply_update now u t) =
     (if isStatusDone (Prim (status (apply_update now u t))) \<and> \<not> isStatusDone (Prim (status t)) then Some now
      else if \<not> isStatusDone (Prim (status (apply_update now u t))) \<and> isStatusDone (Prim (status t)) then None
      else completed_at t)"
    by (simp add: apply_update_def Let_def)
  show ?thesis
    unfolding stamp using store st by auto
qed

theorem updateTask_completed_at_witness:
  "find (\<lambda>x. task_id x = ''7'') [task_a_fazer] = Some task_a_fazer \<and>
   map completed_at
     (tasks (fst (updateTask (\<lambda>i upd. fst (server_updateTask 100 [task_a_fazer] i upd)) ''7''
                    (set_status ''concluida'') (empty_store\<lparr>tasks := [task_a_fazer]\<rparr>)))) =
     [Some 100] \<and>
   find (\<lambda>x. task_id x = ''7'') (snd (server_updateTask 100 [task_a_fazer] ''7'' (set_status ''concluida''))) =
     Some (apply_update 100 (set_status ''concluida'') task_a_fazer) \<and>
   map completed_at
     (tasks (fst (updateTask
                    (\<lambda>i upd. fst (server_updateTask 200
                       (snd (server_updateTask 100 [task_a_fazer] ''7'' (set_status ''concluida''))) i upd))
                    ''7'' (set_status ''em_progresso'')
                    (empty_store\<lparr>tasks := [apply_update 100 (set_status ''concluida'') task_a_fazer]\<rparr>)))) =
     [None]"
proof -
  let ?db = "[task_a_fazer]"
  let ?t = "apply_update 100 (set_status ''concluida'') task_a_fazer"
  let ?db' = "snd (server_updateTask 100 ?db ''7'' (set_status ''concluida''))"
  have id: "task_id task_a_fazer = ''7''" "task_id ?t = ''7''"
    by (simp_all add: task_a_fazer_def apply_update_def Let_def)
  have h1: "find (\<lambda>x. task_id x = ''7'') ?db = Some task_a_fazer"
    by (simp add: id)
  have h2: "find (\<lambda>x. task_id x = ''7'') ?db' = Some ?t"
    by (simp add: server_updateTask_def id)
  have st: "\<not> isStatusDone (Prim (status task_a_fazer))" "isStatusDone (Prim (status ?t))"
    "\<not> isStatusDone (Prim (status (apply_update 200 (set_status ''em_progresso'') ?t)))"
    by (simp_all add: task_a_fazer_def apply_update_def set_status_def isStatusDone_def Let_def)
  have first: "map completed_at
     (tasks (fst (updateTask (\<lambda>i upd. fst (server_updateTask 100 ?db i upd)) ''7''
                    (set_status ''concluida'') (empty_store\<lparr>tasks := [task_a_fazer]\<rparr>)))) = [Some 100]"
    using updateTask_completed_at [OF h1, of 100 "set_status ''concluida''" "empty_store\<lparr>tasks := [task_a_fazer]\<rparr>"]
      st id by simp
  have second: "map completed_at
     (tasks (fst (updateTask (\<lambda>i upd. fst (server_updateTask 200 ?db' i upd)) ''7''
                    (set_status ''em_progresso'') (empty_store\<lparr>tasks := [?t]\<rparr>)))) = [None]"
    using updateTask_completed_at [OF h2, of 200 "set_status ''em_progresso''" "empty_store\<lparr>tasks := [?t]\<rparr>"]
      st id by simp
  from h1 h2 first second show ?thesis by blast
qed

section \<open>The response interceptor\<close>

lemma request_interceptor_retry [simp]:
  "retry (request_interceptor b req) = retry req"
  by (simp add: request_interceptor_def split: option.splits)

lemma request_interceptor_sent [simp]:
  "request_interceptor (b\<lparr>sent := xs\<rparr>) req = request_interceptor b req"
  "request_interceptor (b\<lparr>refresh_calls := ys\<rparr>) req = request_interceptor b req"
  by (simp_all add: request_interceptor_def)

lemma api_request_flagged:
  assumes "retry req"
  shows "api_request server refresh b req =
           (b\<lparr>sent := sent b @ [request_interceptor b req]\<rparr>,
            server (length (sent b)) (request_interceptor b req))"
  using assms by (simp add: Let_def split: sum.splits)

lemma api_request_success:
  assumes "server (length (sent b)) (request_interceptor b req) = Inr x"
  shows "api_request server refresh b req =
           (b\<lparr>sent := sent b @ [request_interceptor b req]\<rparr>, Inr x)"
  using assms by (simp add: Let_def)

lemma api_request_other_error:
  assumes "server (length (sent b)) (request_interceptor b req) = Inl err"
    and "\<not> is_401 err \<or> retry req"
  shows "api_request server refresh b req =
           (b\<lparr>sent := sent b @ [request_interceptor b req]\<rparr>, Inl err)"
  using assms by (auto simp add: Let_def)

lemma api_request_no_refresh_token:
  assumes "server (length (sent b)) (request_interceptor b req) = Inl err"
    and "refresh_token (localStorage b) = None \<or> refresh_token (localStorage b) = Some []"
  shows "api_request server refresh b req =
           (b\<lparr>sent := sent b @ [request_interceptor b req]\<rparr>, Inl err)"
  using assms by (auto simp add: Let_def)

lemma api_request_refresh_fails:
  assumes "server (length (sent b)) (request_interceptor b req) = Inl err"
    and "is_401 err" and "\<not> retry req"
    and "refresh_token (localStorage b) = Some rt" and "rt \<noteq> []"
    and "refresh rt = Inl refreshError"
  shows "api_request server refresh b req =
           (b\<lparr>sent := sent b @ [request_interceptor b req],
              refresh_calls := refresh_calls b @ [rt],
              localStorage := \<lparr>access_token = None, refresh_token = None\<rparr>,
              location_href := ''/login''\<rparr>, Inl refreshError)"
  using assms by (simp add: Let_def)

lemma api_request_refreshed:
  assumes "server (length (sent b)) (request_interceptor b req) = Inl err"
    and "is_401 err" and "\<not> retry req"
    and "refresh_token (localStorage b) = Some rt" and "rt \<noteq> []"
    and "refresh rt = Inr (a, r)"
  shows "api_request server refresh b req =
           (b\<lparr>sent := sent b @ [request_interceptor b req,
                   (request_interceptor b req)\<lparr>retry := True, authorization := Some (''Bearer '' @ a)\<rparr>],
              refresh_calls := refresh_calls b @ [rt],
              localStorage := \<lparr>access_token = Some a, refresh_token = Some r\<rparr>\<rparr>,
            server (Suc (length (sent b)))
              ((request_interceptor b req)\<lparr>retry := True, authorization := Some (''Bearer '' @ a)\<rparr>))"
proof -
  let ?config = "request_interceptor b req"
  let ?again = "?config\<lparr>retry := True, authorization := Some (''Bearer '' @ a)\<rparr>"
  let ?b2 = "b\<lparr>sent := sent b @ [?config], refresh_calls := refresh_calls b @ [rt],
                localStorage := \<lparr>access_token = Some a, refresh_token = Some r\<rparr>\<rparr>"
  have first: "api_request server refresh b req = api_request server refresh ?b2 ?again"
    using assms by (subst api_request.simps) (simp add: Let_def)
  have again: "request_interceptor ?b2 ?again = ?again"
    by (simp add: request_interceptor_def)
  have second: "api_request server refresh ?b2 ?again =
      (?b2\<lparr>sent := sent ?b2 @ [?again]\<rparr>, server (length (sent ?b2)) ?again)"
    using api_request_flagged [of ?again server refresh ?b2] unfolding again by simp
  show ?thesis
    unfolding first second by simp
qed

text \<open>The axios instance of the AI client puts each request on the wire once and hands the
  answer back as it is.\<close>

lemma apiClient_request_sends_once:
  "sent (fst (apiClient_request server b req)) = sent b @ [request_interceptor b req] \<and>
   snd (apiClient_request server b req) = server (length (sent b)) (request_interceptor b req) \<and>
   localStorage (fst (apiClient_request server b req)) = localStorage b \<and>
   location_href (fst (apiClient_request server b req)) = location_href b"
  by (simp add: apiClient_request_def Let_def)

text \<open>
  Claim C3, as the code has it. For a request through \<open>ApiService\<close> that is rejected with
  status 401 and does not carry the \<open>_retry\<close> mark: if a refresh token is stored and the
  refresh succeeds, the new tokens are stored and the request is sent exactly once more,
  marked and with the new bearer token, and whatever that second exchange gives is the
  result; if a refresh token is stored and the refresh is rejected, both tokens are
  removed, the location becomes \<open>/login\<close>, and the request is not sent again; if no refresh
  token is stored, the rejection is passed on with no retry, no token removed and no
  redirect. In every case the request goes out at most twice and the refresh endpoint is
  called at most once.
\<close>

theorem api_request_retry_policy:
  assumes first: "server (length (sent b)) (request_interceptor b req) = Inl err"
    and auth: "is_401 err"
    and fresh: "\<not> retry req"
  shows "(\<forall>rt a r. refresh_token (localStorage b) = Some rt \<and> rt \<noteq> [] \<and> refresh rt = Inr (a, r) \<longrightarrow>
            length (sent (fst (api_request server refresh b req))) = length (sent b) + 2 \<and>
            retry (last (sent (fst (api_request server refresh b req)))) \<and>
            authorization (last (sent (fst (api_request server refresh b req)))) = Some (''Bearer '' @ a) \<and>
            localStorage (fst (api_request server refresh b req)) =
              \<lparr>access_token = Some a, refresh_token = Some r\<rparr> \<and>
            location_href (fst (api_request server refresh b req)) = location_href b \<and>
            snd (api_request server refresh b req) =
              server (Suc (length (sent b))) (last (sent (fst (api_request server refresh b req))))) \<and>
         (\<forall>rt e. refresh_token (localStorage b) = Some rt \<and> rt \<noteq> [] \<and> refresh rt = Inl e \<longrightarrow>
            length (sent (fst (api_request server refresh b req))) = length (sent b) + 1 \<and>
            localStorage (fst (api_request server refresh b req)) =
              \<lparr>access_token = None, refresh_token = None\<rparr> \<and>
            location_href (fst (api_request server refresh b req)) = ''/login'' \<and>
            snd (api_request server refresh b req) = Inl e) \<and>
         (refresh_token (localStorage b) = None \<or> refresh_token (localStorage b) = Some [] \<longrightarrow>
            length (sent (fst (api_request server refresh b req))) = length (sent b) + 1 \<and>
            localStorage (fst (api_request server refresh b req)) = localStorage b \<and>
            location_href (fst (api_request server refresh b req)) = location_href b \<and>
            snd (api_request server refresh b req) = Inl err) \<and>
         length (sent (fst (api_request server refresh b req))) \<le> length (sent b) + 2 \<and>
         length (refresh_calls (fst (api_request server refresh b req))) \<le> length (refresh_calls b) + 1"
proof -
  let ?R = "api_request server refresh b req"
  have ok: "length (sent (fst ?R)) = length (sent b) + 2 \<and>
            retry (last (sent (fst ?R))) \<and>
            authorization (last (sent (fst ?R))) = Some (''Bearer '' @ a) \<and>
            localStorage (fst ?R) = \<lparr>access_token = Some a, refresh_token = Some r\<rparr> \<and>
            location_href (fst ?R) = location_href b \<and>
            snd ?R = server (Suc (length (sent b))) (last (sent (fst ?R))) \<and>
            length (refresh_calls (fst ?R)) = length (refresh_calls b) + 1"
    if "refresh_token (localStorage b) = Some rt" "rt \<noteq> []" "refresh rt = Inr (a, r)" for rt a r
    using api_request_refreshed [where server = server and refresh = refresh and b = b and req = req and err = err and rt = rt and a = a and r = r] first auth fresh that
    by simp
  have failed: "length (sent (fst ?R)) = length (sent b) + 1 \<and>
            localStorage (fst ?R) = \<lparr>access_token = None, refresh_token = None\<rparr> \<and>
            location_href (fst ?R) = ''/login'' \<and> snd ?R = Inl e \<and>
            length (refresh_calls (fst ?R)) = length (refresh_calls b) + 1"
    if "refresh_token (localStorage b) = Some rt" "rt \<noteq> []" "refresh rt = Inl e" for rt e
    using api_request_refresh_fails [where server = server and refresh = refresh and b = b and req = req and err = err and rt = rt and refreshError = e] first auth fresh that
    by simp
  have none: "length (sent (fst ?R)) = length (sent b) + 1 \<and>
            localStorage (fst ?R) = localStorage b \<and>
            location_href (fst ?R) = location_href b \<and> snd ?R = Inl err \<and>
            length (refresh_calls (fst ?R)) = length (refresh_calls b)"
    if "refresh_token (localStorage b) = None \<or> refresh_token (localStorage b) = Some []"
    using api_request_no_refresh_token [where server = server and refresh = refresh and b = b and req = req and err = err] first that
    by simp
  have bounds: "length (sent (fst ?R)) \<le> length (sent b) + 2 \<and>
                length (refresh_calls (fst ?R)) \<le> length (refresh_calls b) + 1"
  proof (cases "refresh_token (localStorage b)")
    case None
    then show ?thesis using none by simp
  next
    case (Some rt)
    show ?thesis
    proof (cases "rt = []")
      case True
      then show ?thesis using none Some by simp
    next
      case False
      show ?thesis
      proof (cases "refresh rt")
        case (Inl e)
        then show ?thesis using failed [OF Some False] by simp
      next
        case (Inr p)
        then show ?thesis using ok [OF Some False, of "fst p" "snd p"] by simp
      qed
    qed
  qed
  show ?thesis
    using ok failed none bounds by blast
qed

theorem api_request_retry_policy_witness:
  "accepts_fresh (length (sent logged_in)) (request_interceptor logged_in tasks_request) = Inl unauthorized \<and>
   is_401 unauthorized \<and> \<not> retry tasks_request \<and>
   refresh_token (localStorage logged_in) = Some ''r1'' \<and> refresh_ok ''r1'' = Inr (''fresh'', ''r2'') \<and>
   length (sent (fst (api_request accepts_fresh refresh_ok logged_in tasks_request))) = 2 \<and>
   snd (api_request accepts_fresh refresh_ok logged_in tasks_request) = Inr ''[]'' \<and>
   refresh_expired ''r1'' = Inl unauthorized \<and>
   length (sent (fst (api_request accepts_fresh refresh_expired logged_in tasks_request))) = 1 \<and>
   location_href (fst (api_request accepts_fresh refresh_expired logged_in tasks_request)) = ''/login'' \<and>
   localStorage (fst (api_request accepts_fresh refresh_expired logged_in tasks_request)) =
     \<lparr>access_token = None, refresh_token = None\<rparr>"
proof -
  have first: "accepts_fresh (length (sent logged_in)) (request_interceptor logged_in tasks_request) =
               Inl unauthorized"
    by (simp add: accepts_fresh_def request_interceptor_def logged_in_def tasks_request_def)
  have auth: "is_401 unauthorized"
    by (simp add: is_401_def unauthorized_def)
  have fresh: "\<not> retry tasks_request"
    by (simp add: tasks_request_def)
  have rt: "refresh_token (localStorage logged_in) = Some ''r1''" "''r1'' \<noteq> []"
    "sent logged_in = []"
    by (simp_all add: logged_in_def)
  have ok: "refresh_ok ''r1'' = Inr (''fresh'', ''r2'')"
    by (simp add: refresh_ok_def)
  have bad: "refresh_expired ''r1'' = Inl unauthorized"
    by (simp add: refresh_expired_def)
  have accepted: "accepts_fresh n (c\<lparr>authorization := Some (''Bearer '' @ ''fresh'')\<rparr>) = Inr ''[]''" for n c
    by (simp add: accepts_fresh_def)
  from api_request_retry_policy [where server = accepts_fresh and b = logged_in and req = tasks_request
      and err = unauthorized and refresh = refresh_ok] first auth fresh rt ok
  have one: "length (sent (fst (api_request accepts_fresh refresh_ok logged_in tasks_request))) = 2 \<and>
    snd (api_request accepts_fresh refresh_ok logged_in tasks_request) =
      accepts_fresh (Suc 0) (last (sent (fst (api_request accepts_fresh refresh_ok logged_in tasks_request)))) \<and>
    authorization (last (sent (fst (api_request accepts_fresh refresh_ok logged_in tasks_request)))) =
      Some ''Bearer fresh''"
    by simp
  then have two: "snd (api_request accepts_fresh refresh_ok logged_in tasks_request) = Inr ''[]''"
    by (simp add: accepts_fresh_def)
  from api_request_retry_policy [where server = accepts_fresh and b = logged_in and req = tasks_request
      and err = unauthorized and refresh = refresh_expired] first auth fresh rt bad
  have three: "length (sent (fst (api_request accepts_fresh refresh_expired logged_in tasks_request))) = 1 \<and>
    location_href (fst (api_request accepts_fresh refresh_expired logged_in tasks_request)) = ''/login'' \<and>
    localStorage (fst (api_request accepts_fresh refresh_expired logged_in tasks_request)) =
      \<lparr>access_token = None, refresh_token = None\<rparr>"
    by simp
  show ?thesis
    using first auth fresh rt ok bad one two three by simp
qed

text \<open>
  Claim C3, as stated, fails: a login with wrong credentials, sent while no token is
  stored, is answered with 401 and goes out once only; there is no retry.
\<close>

theorem failed_login_is_not_retried:
  "is_401 unauthorized \<and>
   api_request rejects_all refresh_ok logged_out login_request =
     (logged_out\<lparr>sent := [login_request]\<rparr>, Inl unauthorized) \<and>
   length (sent (fst (api_request rejects_all refresh_ok logged_out login_request))) = 1 \<and>
   location_href (fst (api_request rejects_all refresh_ok logged_out login_request)) = ''/''"
  by (simp add: is_401_def unauthorized_def rejects_all_def logged_out_def login_request_def
      request_interceptor_def)

section \<open>The chat assistant\<close>

text \<open>
  Claim C6. Executing an action button whose action is \<open>cancel\<close> sends nothing to the
  server: the task table and the dispatched window events are the same before and after,
  whatever the server would do with a request, and the conversation gains exactly one
  assistant message, the acknowledgement that the action was cancelled.
\<close>

theorem cancel_action_is_acknowledged_noop:
  assumes "action actionButton = ''cancel''"
  shows "executeAction executeChatAction now actionButton (c, w) =
           (c\<lparr>messages := messages c @
                 [\<lparr>role = Assistant, content = cancelled_text, timestamp = now\<rparr>]\<rparr>, w) \<and>
         server_tasks (snd (executeAction executeChatAction now actionButton (c, w))) = server_tasks w \<and>
         window_events (snd (executeAction executeChatAction now actionButton (c, w))) = window_events w \<and>
         content (last (messages (fst (executeAction executeChatAction now actionButton (c, w))))) =
           cancelled_text"
  using assms by (simp add: executeAction_def assistant_says_def)

theorem cancel_action_is_acknowledged_noop_witness:
  "action cancel_button = ''cancel'' \<and>
   server_tasks (snd (executeAction wipe_all 5 cancel_button sample_chat)) = [task_done_pt, task_done_en] \<and>
   map content (messages (fst (executeAction wipe_all 5 cancel_button sample_chat))) = [cancelled_text] \<and>
   server_tasks (snd (executeAction wipe_all 5 (cancel_button\<lparr>action := ''delete''\<rparr>) sample_chat)) = []"
proof -
  have a: "action cancel_button = ''cancel''"
    by (simp add: cancel_button_def)
  have b: "server_tasks (snd (executeAction wipe_all 5 (cancel_button\<lparr>action := ''delete''\<rparr>) sample_chat)) = []"
    by (simp add: executeAction_def cancel_button_def sample_chat_def wipe_all_def)
  show ?thesis
    using cancel_action_is_acknowledged_noop [OF a, of wipe_all 5 "fst sample_chat" "snd sample_chat"] a b
    by (simp add: sample_chat_def)
qed

section \<open>Subtask suggestions\<close>

lemma load_error_text_nonempty: "load_error_text \<noteq> []"
  by (simp add: load_error_text_def)

lemma render_loadSuggestions:
  "render (loadSuggestions suggestSubtasks taskTitle taskDescription m) =
     (case suggestSubtasks taskTitle taskDescription of
        Inl e \<Rightarrow> ErrorView load_error_text
      | Inr (subtasks, provider) \<Rightarrow> if subtasks = [] then NoSuggestionsView else SuggestionListView)"
  by (simp add: render_def loadSuggestions_def load_error_text_nonempty split: sum.splits prod.splits)

text \<open>White space beyond ASCII is white space: a no-break space alone is a blank input.\<close>

lemma blank_examples:
  "blank [CHR 0xC2, CHR 0xA0]" "blank ('' '' @ [CHR 0xE2, CHR 0x80, CHR 0xA8, CHR 0x09])"
  "\<not> blank '' x ''" "\<not> blank [CHR 0xC2]"
  by (simp_all add: white_space_def)

text \<open>
  After a suggestion call that resolved, whatever the user then selects, confirming shows
  the error view exactly when the creation of one of the selected subtasks is rejected.
\<close>

lemma render_handleCreateSubtasks:
  assumes "suggestSubtasks taskTitle taskDescription = Inr (subtasks, provider)"
    and "list_all (\<lambda>i. i < length subtasks) sel"
  shows "(\<exists>e. render (handleCreateSubtasks createSubtask taskId
                  ((loadSuggestions suggestSubtasks taskTitle taskDescription m)
                     \<lparr>selectedSubtasks := sel\<rparr>)) = ErrorView e) \<longleftrightarrow>
         (\<exists>i \<in> set sel. isl (createSubtask taskId (subtasks ! i)))"
proof (cases "sel = []")
  case True
  then show ?thesis
    using assms(1) by (simp add: handleCreateSubtasks_def loadSuggestions_def render_def)
next
  case False
  have all: "list_all (\<lambda>r. \<not> isl r) (map (\<lambda>i. createSubtask taskId (subtasks ! i)) sel) \<longleftrightarrow>
             \<not> (\<exists>i \<in> set sel. isl (createSubtask taskId (subtasks ! i)))"
    by (simp add: list_all_iff)
  show ?thesis
  proof (cases "\<exists>i \<in> set sel. isl (createSubtask taskId (subtasks ! i))")
    case True
    with False all assms show ?thesis
      by (simp add: handleCreateSubtasks_def loadSuggestions_def render_def Let_def
          create_error_text_def)
  next
    case no: False
    with False all assms show ?thesis
      by (simp add: handleCreateSubtasks_def loadSuggestions_def render_def Let_def)
  qed
qed

text \<open>
  Claim C7, as the code has it. When \<open>suggestSubtasks\<close> answers with an empty list, the
  modal shows the no-suggestions view, holds no error, and confirming the (empty)
  selection only calls \<open>onClose\<close>. Right after loading, the modal shows the error view
  exactly when the suggestion call was rejected. After a suggestion call that resolved,
  the error view is entered as well, namely exactly when the creation of a selected
  subtask is rejected. A task created from the natural-language input is in the store,
  and the store holds no error, before the modal is mounted; the modal is built from the
  created task and the suggestion call only, so the outcome of that call cannot reach the
  store.
\<close>

theorem subtask_modal_error_view:
  "(suggestSubtasks taskTitle taskDescription = Inr ([], provider) \<longrightarrow>
      render (loadSuggestions suggestSubtasks taskTitle taskDescription m) = NoSuggestionsView \<and>
      modal_error (loadSuggestions suggestSubtasks taskTitle taskDescription m) = None \<and>
      handleCreateSubtasks createSubtask taskId
          (loadSuggestions suggestSubtasks taskTitle taskDescription m) =
        (loadSuggestions suggestSubtasks taskTitle taskDescription m)
          \<lparr>callbacks := callbacks m @ [''onClose'']\<rparr>) \<and>
   ((\<exists>e. render (loadSuggestions suggestSubtasks taskTitle taskDescription m) = ErrorView e) \<longleftrightarrow>
      isl (suggestSubtasks taskTitle taskDescription)) \<and>
   (suggestSubtasks taskTitle taskDescription = Inr (subtasks, provider) \<and>
    list_all (\<lambda>i. i < length subtasks) sel \<longrightarrow>
      ((\<exists>e. render (handleCreateSubtasks createSubtask taskId
                ((loadSuggestions suggestSubtasks taskTitle taskDescription m)
                   \<lparr>selectedSubtasks := sel\<rparr>)) = ErrorView e) \<longleftrightarrow>
       (\<exists>i \<in> set sel. isl (createSubtask taskId (subtasks ! i))))) \<and>
   (\<not> blank (input n) \<and> createTaskNaturalLanguage (input n) None = Inr task \<longrightarrow>
      tasks (snd (handleSubmit createTaskNaturalLanguage (n, s))) = tasks s @ [task] \<and>
      error (snd (handleSubmit createTaskNaturalLanguage (n, s))) = None \<and>
      createdTask (fst (handleSubmit createTaskNaturalLanguage (n, s))) = Some task \<and>
      mounted_modal suggestSubtasks (fst (handleSubmit createTaskNaturalLanguage (n, s))) =
        Some (loadSuggestions suggestSubtasks (title task) (description task) initial_modal))"
proof -
  have empty: "suggestSubtasks taskTitle taskDescription = Inr ([], provider) \<longrightarrow>
      render (loadSuggestions suggestSubtasks taskTitle taskDescription m) = NoSuggestionsView \<and>
      modal_error (loadSuggestions suggestSubtasks taskTitle taskDescription m) = None \<and>
      handleCreateSubtasks createSubtask taskId
          (loadSuggestions suggestSubtasks taskTitle taskDescription m) =
        (loadSuggestions suggestSubtasks taskTitle taskDescription m)
          \<lparr>callbacks := callbacks m @ [''onClose'']\<rparr>"
    by (simp add: render_def loadSuggestions_def handleCreateSubtasks_def)
  have err: "(\<exists>e. render (loadSuggestions suggestSubtasks taskTitle taskDescription m) = ErrorView e) \<longleftrightarrow>
      isl (suggestSubtasks taskTitle taskDescription)"
    unfolding render_loadSuggestions by (auto split: sum.splits)
  have create: "suggestSubtasks taskTitle taskDescription = Inr (subtasks, provider) \<and>
    list_all (\<lambda>i. i < length subtasks) sel \<longrightarrow>
      ((\<exists>e. render (handleCreateSubtasks createSubtask taskId
                ((loadSuggestions suggestSubtasks taskTitle taskDescription m)
                   \<lparr>selectedSubtasks := sel\<rparr>)) = ErrorView e) \<longleftrightarrow>
       (\<exists>i \<in> set sel. isl (createSubtask taskId (subtasks ! i))))"
    using render_handleCreateSubtasks
      [of suggestSubtasks taskTitle taskDescription subtasks provider sel createSubtask taskId m]
    by blast
  have creation: "\<not> blank (input n) \<and> createTaskNaturalLanguage (input n) None = Inr task \<longrightarrow>
      tasks (snd (handleSubmit createTaskNaturalLanguage (n, s))) = tasks s @ [task] \<and>
      error (snd (handleSubmit createTaskNaturalLanguage (n, s))) = None \<and>
      createdTask (fst (handleSubmit createTaskNaturalLanguage (n, s))) = Some task \<and>
      mounted_modal suggestSubtasks (fst (handleSubmit createTaskNaturalLanguage (n, s))) =
        Some (loadSuggestions suggestSubtasks (title task) (description task) initial_modal)"
    by (simp add: handleSubmit_def createTask_def mounted_modal_def)
  from empty err create creation show ?thesis by blast
qed

theorem subtask_modal_error_view_witness:
  "provider_empty ''Write report'' None = Inr ([], ''unknown'') \<and>
   render (loadSuggestions provider_empty ''Write report'' None initial_modal) = NoSuggestionsView \<and>
   isl (provider_down ''Write report'' None) \<and>
   render (loadSuggestions provider_down ''Write report'' None initial_modal) = ErrorView load_error_text \<and>
   provider_one ''Write report'' None = Inr ([suggestion_outline], ''openai'') \<and>
   list_all (\<lambda>i. i < length [suggestion_outline]) [0] \<and>
   \<not> isl (subtask_created ''7'' ([suggestion_outline] ! 0)) \<and>
   render (handleCreateSubtasks subtask_created ''7''
             ((loadSuggestions provider_one ''Write report'' None initial_modal)
                \<lparr>selectedSubtasks := [0]\<rparr>)) = SuggestionListView \<and>
   \<not> blank (input typing_buy_milk) \<and>
   creates_task_a_fazer (input typing_buy_milk) None = Inr task_a_fazer \<and>
   tasks (snd (handleSubmit creates_task_a_fazer (typing_buy_milk, empty_store))) = [task_a_fazer] \<and>
   map_option render
     (mounted_modal provider_down (fst (handleSubmit creates_task_a_fazer (typing_buy_milk, empty_store)))) =
     Some (ErrorView load_error_text)"
proof -
  have a: "provider_empty ''Write report'' None = Inr ([], ''unknown'')"
    by (simp add: provider_empty_def)
  have b: "isl (provider_down ''Write report'' None)"
    by (simp add: provider_down_def)
  have c: "\<not> blank (input typing_buy_milk)"
    by (simp add: white_space_def typing_buy_milk_def)
  have d: "creates_task_a_fazer (input typing_buy_milk) None = Inr task_a_fazer"
    by (simp add: creates_task_a_fazer_def)
  have e: "title task_a_fazer = ''Write report''" "description task_a_fazer = None"
    "tasks empty_store = []"
    by (simp_all add: task_a_fazer_def empty_store_def)
  have one: "provider_one ''Write report'' None = Inr ([suggestion_outline], ''openai'')"
    "list_all (\<lambda>i. i < length [suggestion_outline]) [0]"
    "\<not> isl (subtask_created ''7'' ([suggestion_outline] ! 0))"
    by (simp_all add: provider_one_def subtask_created_def)
  note empty = subtask_modal_error_view
    [where suggestSubtasks = provider_empty and taskTitle = "''Write report''"
       and taskDescription = None and provider = "''unknown''" and m = initial_modal]
  note down = subtask_modal_error_view
    [where suggestSubtasks = provider_down and taskTitle = "''Write report''"
       and taskDescription = None and m = initial_modal and n = typing_buy_milk
       and createTaskNaturalLanguage = creates_task_a_fazer and task = task_a_fazer
       and s = empty_store]
  note created = subtask_modal_error_view
    [where suggestSubtasks = provider_one and taskTitle = "''Write report''"
       and taskDescription = None and provider = "''openai''" and m = initial_modal
       and subtasks = "[suggestion_outline]" and sel = "[0]"
       and createSubtask = subtask_created and taskId = "''7''"]
  have f: "render (loadSuggestions provider_down ''Write report'' None initial_modal) =
           ErrorView load_error_text"
    by (simp add: render_loadSuggestions provider_down_def)
  from empty a have g: "render (loadSuggestions provider_empty ''Write report'' None initial_modal) =
           NoSuggestionsView"
    by blast
  from down c d e have h:
    "tasks (snd (handleSubmit creates_task_a_fazer (typing_buy_milk, empty_store))) = [task_a_fazer] \<and>
     mounted_modal provider_down (fst (handleSubmit creates_task_a_fazer (typing_buy_milk, empty_store))) =
       Some (loadSuggestions provider_down ''Write report'' None initial_modal)"
    by simp
  from created one have "\<not> (\<exists>e. render (handleCreateSubtasks subtask_created ''7''
             ((loadSuggestions provider_one ''Write report'' None initial_modal)
                \<lparr>selectedSubtasks := [0]\<rparr>)) = ErrorView e)"
    by simp
  moreover have "render (handleCreateSubtasks subtask_created ''7''
             ((loadSuggestions provider_one ''Write report'' None initial_modal)
                \<lparr>selectedSubtasks := [0]\<rparr>)) \<in> {ErrorView create_error_text, SuggestionListView}"
    by (simp add: handleCreateSubtasks_def loadSuggestions_def provider_one_def render_def Let_def
        create_error_text_def)
  ultimately have k: "render (handleCreateSubtasks subtask_created ''7''
             ((loadSuggestions provider_one ''Write report'' None initial_modal)
                \<lparr>selectedSubtasks := [0]\<rparr>)) = SuggestionListView"
    by auto
  from a b c d one f g h k show ?thesis by simp
qed

text \<open>
  Claim C7, as stated, fails: the suggestion call resolves with one suggestion and the
  modal shows the list; the user confirms, the creation of the subtask is rejected, and
  the modal is in the error view although the suggestion call did not throw.
\<close>

theorem create_failure_enters_error_view:
  "\<not> isl (provider_one ''Write report'' None) \<and>
   render (loadSuggestions provider_one ''Write report'' None initial_modal) = SuggestionListView \<and>
   selectedSubtasks (loadSuggestions provider_one ''Write report'' None initial_modal) = [0] \<and>
   render (handleCreateSubtasks subtask_rejected ''7''
             (loadSuggestions provider_one ''Write report'' None initial_modal)) =
     ErrorView create_error_text"
  by (simp add: provider_one_def loadSuggestions_def initial_modal_def render_def
      handleCreateSubtasks_def subtask_rejected_def create_error_text_def Let_def)

section \<open>Reconnecting the socket\<close>












end
